theory Spec2Isabelle
  imports Main
begin

section \<open>Data model of witrn-ui-bokeh.py\<close>

subsection \<open>Time stamps\<close>

text \<open>
  A Python \<open>datetime\<close> (naive, as \<open>datetime.now()\<close> returns it) is its calendar fields.
  The difference of two of them is a \<open>timedelta\<close>, which Python normalises and compares
  by its total number of microseconds; \<open>timedelta\<close> is modelled as that number.
\<close>

record datetime =
  dt_year :: int
  dt_month :: int
  dt_day :: int
  dt_hour :: int
  dt_minute :: int
  dt_second :: int
  dt_microsecond :: int

type_synonym timedelta = int

definition is_leap :: "int \<Rightarrow> bool" where
  "is_leap y = (y mod 4 = 0 \<and> (y mod 100 \<noteq> 0 \<or> y mod 400 = 0))"

definition days_before_year :: "int \<Rightarrow> int" where
  "days_before_year y = (y - 1) * 365 + (y - 1) div 4 - (y - 1) div 100 + (y - 1) div 400"

definition days_before_month :: "int \<Rightarrow> int \<Rightarrow> int" where
  "days_before_month y m =
     (if m = 1 then 0 else if m = 2 then 31 else if m = 3 then 59 else if m = 4 then 90
      else if m = 5 then 120 else if m = 6 then 151 else if m = 7 then 181
      else if m = 8 then 212 else if m = 9 then 243 else if m = 10 then 273
      else if m = 11 then 304 else 334)
     + (if m > 2 \<and> is_leap y then 1 else 0)"

definition toordinal :: "datetime \<Rightarrow> int" where
  "toordinal d = days_before_year (dt_year d) + days_before_month (dt_year d) (dt_month d) + dt_day d"

definition total_microseconds :: "datetime \<Rightarrow> int" where
  "total_microseconds d =
     (((toordinal d * 24 + dt_hour d) * 60 + dt_minute d) * 60 + dt_second d) * 1000000
       + dt_microsecond d"

text \<open>\<open>a - b\<close> on two datetimes.\<close>

definition dt_sub :: "datetime \<Rightarrow> datetime \<Rightarrow> timedelta" where
  "dt_sub a b = total_microseconds a - total_microseconds b"

text \<open>
  The exceptions that leave the program's own code: \<open>timedelta\<close> raises the first two,
  \<open>open\<close> the third, and a call on \<open>None\<close> the last.
\<close>

datatype error = TypeError | OverflowError | OSError | AttributeError

text \<open>
  \<open>timedelta(milliseconds=p)\<close>, where \<open>p\<close> is the value of a numeric input: an integer, or
  \<open>None\<close> when the field was emptied. \<open>None\<close> raises \<open>TypeError\<close>; an integer whose whole
  days (rounded down) exceed 999999999 in magnitude raises \<open>OverflowError\<close>.
\<close>

definition timedelta_milliseconds :: "int option \<Rightarrow> error + timedelta" where
  "timedelta_milliseconds p =
     (case p of
        None \<Rightarrow> Inl TypeError
      | Some n \<Rightarrow>
          if - 999999999 \<le> n div 86400000 \<and> n div 86400000 \<le> 999999999
          then Inr (1000 * n) else Inl OverflowError)"

text \<open>\<open>(a - b) > timedelta(milliseconds=p)\<close>: the comparison, or what \<open>timedelta\<close> raises.\<close>

definition exceeds :: "datetime \<Rightarrow> datetime \<Rightarrow> int option \<Rightarrow> error + bool" where
  "exceeds a b p =
     (case timedelta_milliseconds p of Inl e \<Rightarrow> Inl e | Inr td \<Rightarrow> Inr (dt_sub a b > td))"

text \<open>The decimal digit of the units of a number, and zero-padded fields of fixed width.\<close>

definition digit :: "int \<Rightarrow> char" where
  "digit n = ''0123456789'' ! nat (n mod 10)"

definition pad2 :: "int \<Rightarrow> string" where
  "pad2 n = [digit (n div 10), digit n]"

definition pad3 :: "int \<Rightarrow> string" where
  "pad3 n = digit (n div 100) # pad2 n"

definition pad4 :: "int \<Rightarrow> string" where
  "pad4 n = digit (n div 1000) # pad3 n"

text \<open>\<open>d.strftime('%H:%M:%S.%f')[:-3]\<close>: the six digits of the microseconds lose their last three.\<close>

definition strftime_HMS_ms :: "datetime \<Rightarrow> string" where
  "strftime_HMS_ms d =
     pad2 (dt_hour d) @ '':'' @ pad2 (dt_minute d) @ '':'' @ pad2 (dt_second d) @ ''.''
       @ pad3 (dt_microsecond d div 1000)"

text \<open>
  \<open>%Y\<close>: the C library the program runs on prints a year below 1000 without leading zeros.
\<close>

definition strftime_Y :: "int \<Rightarrow> string" where
  "strftime_Y y = (if y < 1000 then dropWhile (\<lambda>c. c = CHR ''0'') (pad3 y) else pad4 y)"

text \<open>\<open>d.strftime('%Y-%m-%d_%H-%M-%S')\<close>.\<close>

definition strftime_file :: "datetime \<Rightarrow> string" where
  "strftime_file d =
     strftime_Y (dt_year d) @ ''-'' @ pad2 (dt_month d) @ ''-'' @ pad2 (dt_day d) @ ''_''
       @ pad2 (dt_hour d) @ ''-'' @ pad2 (dt_minute d) @ ''-'' @ pad2 (dt_second d)"

text \<open>\<open>s.replace(' ', '-')\<close>.\<close>

definition replace_spaces :: "string \<Rightarrow> string" where
  "replace_spaces s = map (\<lambda>c. if c = CHR '' '' then CHR ''-'' else c) s"

subsection \<open>Packets\<close>

text \<open>
  The measurement fields of \<open>packet.payload.data\<close> that the program reads. The type \<open>'a\<close>
  stands for Python's \<open>float\<close>: the program only negates and multiplies such values, so
  the model asks for no more than these two operations.
\<close>

record 'a meter_data =
  voltage :: 'a
  current :: 'a
  ah :: 'a
  wh :: 'a
  recmA :: int
  recTime :: int
  recGrp :: int
  runTime :: int
  offHour :: int
  offPer :: int
  reserved :: int

datatype Command = DAT_RECV | OTHER_COMMAND nat

record 'a HIDPacket =
  command :: Command
  data :: "'a meter_data"

subsection \<open>The user interface and the document's callback queue\<close>

datatype widget =
  device_select | open_conn_button | close_conn_button | invert_sign_switch
  | title_input | log_period_input | start_log_button | stop_log_button
  | plot_period_input | clear_plot_button

text \<open>
  The text that \<open>on_packet\<close> builds for \<open>measurement_label\<close>, as the values it interpolates,
  in their order: voltage, current, power, time string, \<open>ah\<close>, \<open>wh\<close>, \<open>recmA\<close>, \<open>recTime\<close>,
  \<open>recGrp + 1\<close>, \<open>runTime\<close>, \<open>offHour\<close>, \<open>offPer\<close>, \<open>reserved\<close>.
\<close>

datatype 'a meas_text =
  Meas_text 'a 'a 'a string 'a 'a int int int int int int int

text \<open>
  One row given to \<open>csv.writer.writerow\<close>: \<open>datetime_now\<close>, voltage, current, power, \<open>ah\<close>,
  \<open>wh\<close>, \<open>recmA\<close>, \<open>recTime\<close>, \<open>recGrp + 1\<close>, \<open>runTime\<close>.
\<close>

datatype 'a csv_row =
  Row datetime 'a 'a 'a 'a 'a int int int int

text \<open>
  The closures handed to \<open>doc.add_next_tick_callback\<close>, as data: the partial application of
  \<open>update\<close>, and the in-line lambdas that update one property of one model.
\<close>

datatype 'a callback =
  update_callback datetime string 'a 'a 'a
  | status_label_update string
  | measurement_label_update "'a meas_text"
  | widget_update_disabled widget bool
  | new_title_update string

record 'a ColumnDataSource =
  col_DateTime :: "datetime list"
  col_DateTimeStr :: "string list"
  col_voltage :: "'a list"
  col_current :: "'a list"
  col_power :: "'a list"

subsection \<open>The device\<close>

text \<open>
  The driver's \<open>USBMeter\<close> object, as far as the program drives it: the device it was made
  for, and whether \<open>connect\<close> and \<open>start_read\<close> have been called on it.
\<close>

record USBMeter =
  um_device :: string
  um_connected :: bool
  um_reading :: bool

text \<open>An exception: the name of its type and \<open>str(e)\<close>.\<close>

datatype exn = Exn string string

fun type_name :: "exn \<Rightarrow> string" where
  "type_name (Exn n m) = n"

fun str :: "exn \<Rightarrow> string" where
  "str (Exn n m) = m"

text \<open>
  What the \<open>try\<close> block of \<open>main_method\<close> does: the constructor raises (and \<open>meter\<close> keeps
  its value), a later call raises (\<open>meter\<close> is the new object), or all four calls return.
\<close>

datatype connect_outcome =
  constructor_raises exn | connect_raises exn | connects

subsection \<open>The program state\<close>

datatype state = STOPPED | INITIALIZING | RUNNING | STOPPING

text \<open>
  The module's global variables, the properties of the Bokeh models that the program reads
  or writes, the document's queue of next-tick callbacks, and the file system: the files
  that exist, each as the list of its rows (a name with no file maps to \<open>None\<close>), and the
  names under which appending a row (\<open>open(name, 'a')\<close> and the write) succeeds rather
  than raises \<open>OSError\<close>. The two periods
  hold the values of the numeric inputs: an integer, or \<open>None\<close> for an emptied field.
\<close>

record 'a app =
  plot_title :: string
  logging :: bool
  log_period_ms :: "int option"
  csv_file :: string
  plot_period_ms :: "int option"
  meter :: "USBMeter option"
  last_meas_time :: "datetime option"
  last_plot_time :: "datetime option"
  last_log_time :: "datetime option"
  invert_current :: bool
  selected_device :: string
  main_state :: state
  data_source :: "'a ColumnDataSource"
  disabled :: "widget \<Rightarrow> bool"
  status_label_text :: string
  measurement_label_text :: "'a meas_text option"
  new_title_text :: string
  next_tick_callbacks :: "'a callback list"
  files :: "string \<rightharpoonup> 'a csv_row list"
  can_append :: "string \<Rightarrow> bool"

definition empty_data :: "'a ColumnDataSource" where
  "empty_data =
     \<lparr>col_DateTime = [], col_DateTimeStr = [], col_voltage = [], col_current = [],
      col_power = []\<rparr>"

text \<open>
  The state the module's top-level code sets up, in a working directory without
  subdirectories: a file can be opened for appending if its name is not empty and has no
  slash.
\<close>

definition initial :: "'a app" where
  "initial =
     \<lparr>plot_title = ''Witrn'', logging = False, log_period_ms = Some 250, csv_file = '''',
      plot_period_ms = Some 0, meter = None, last_meas_time = None, last_plot_time = None,
      last_log_time = None, invert_current = True, selected_device = ''C4'',
      main_state = STOPPED, data_source = empty_data,
      disabled = (\<lambda>w. w = close_conn_button \<or> w = stop_log_button),
      status_label_text = '''', measurement_label_text = None, new_title_text = ''Witrn'',
      next_tick_callbacks = [], files = Map.empty,
      can_append = (\<lambda>f. f \<noteq> [] \<and> CHR ''/'' \<notin> set f)\<rparr>"

definition add_next_tick_callback :: "'a callback \<Rightarrow> 'a app \<Rightarrow> 'a app" where
  "add_next_tick_callback c s = s\<lparr>next_tick_callbacks := next_tick_callbacks s @ [c]\<rparr>"

definition widget_update :: "widget \<Rightarrow> bool \<Rightarrow> 'a app \<Rightarrow> 'a app" where
  "widget_update w b s = s\<lparr>disabled := (disabled s)(w := b)\<rparr>"

text \<open>
  How a handler that may raise ends: it returns, or an exception leaves it; either way the
  assignments it has made stay.
\<close>

datatype 'a result =
  is_Return: Return (state_of: "'a app")
  | Raise error (state_of: "'a app")

section \<open>The operations\<close>

subsection \<open>The packet handler\<close>

text \<open>
  The handler \<open>on_packet\<close> is given in the order of its statements: the three
  \<open>if ... == None\<close> statements (lines 192 to 197), which make each time stamp \<open>Some\<close>
  before it is read, and then the three gates. Nothing in the handler catches an exception:
  what \<open>timedelta\<close> raises on a period, or \<open>open\<close> on the log file, ends the handler there,
  before the time stamp of that gate is set and before the gates that follow.
\<close>

definition initialise_times :: "datetime \<Rightarrow> 'a app \<Rightarrow> 'a app" where
  "initialise_times datetime_now s0 =
     (let s1 = (if last_meas_time s0 = None then s0\<lparr>last_meas_time := Some datetime_now\<rparr> else s0);
          s2 = (if last_log_time s1 = None then s1\<lparr>last_log_time := Some datetime_now\<rparr> else s1);
          s3 = (if last_plot_time s2 = None then s2\<lparr>last_plot_time := Some datetime_now\<rparr> else s2)
      in s3)"

text \<open>
  \<open>open(name, 'a')\<close> followed by one \<open>writerow\<close>: the file is created if it is not there, and
  the row goes behind the rows it holds.
\<close>

definition append_row ::
  "string \<Rightarrow> 'a csv_row \<Rightarrow> (string \<rightharpoonup> 'a csv_row list) \<Rightarrow> string \<rightharpoonup> 'a csv_row list" where
  "append_row name row fs =
     fs(name \<mapsto> (case fs name of None \<Rightarrow> [] | Some rows \<Rightarrow> rows) @ [row])"

text \<open>
  Lines 210 to 218, with the row to write. In \<open>logging and ...\<close> the comparison is evaluated
  only while logging is on.
\<close>

definition log_gate :: "datetime \<Rightarrow> 'a csv_row \<Rightarrow> 'a app \<Rightarrow> 'a result" where
  "log_gate datetime_now row s =
     (if logging s then
        (case exceeds datetime_now (the (last_log_time s)) (log_period_ms s) of
           Inl e \<Rightarrow> Raise e s
         | Inr b \<Rightarrow>
             if b then
               (if can_append s (csv_file s) then
                  Return (s\<lparr>files := append_row (csv_file s) row (files s),
                           last_log_time := Some datetime_now\<rparr>)
                else Raise OSError s)
             else Return s)
      else Return s)"

text \<open>Lines 220 to 228, with the callback to submit.\<close>

definition plot_gate :: "datetime \<Rightarrow> 'a callback \<Rightarrow> 'a app \<Rightarrow> 'a result" where
  "plot_gate datetime_now cb s =
     (case exceeds datetime_now (the (last_plot_time s)) (plot_period_ms s) of
        Inl e \<Rightarrow> Raise e s
      | Inr b \<Rightarrow>
          Return (if b then (add_next_tick_callback cb s)\<lparr>last_plot_time := Some datetime_now\<rparr>
                  else s))"

text \<open>
  \<open>timedelta(seconds=n)\<close> for an integer: \<open>OverflowError\<close> if the whole days exceed 999999999
  in magnitude.
\<close>

definition timedelta_seconds :: "int \<Rightarrow> error + timedelta" where
  "timedelta_seconds n =
     (if - 999999999 \<le> n div 86400 \<and> n div 86400 \<le> 999999999
      then Inr (1000000 * n) else Inl OverflowError)"

text \<open>
  The text of the measurement label (lines 231 to 246), kept as the values it shows. The
  f-string passes the recording time and then the uptime to \<open>timedelta(seconds=...)\<close>, and
  what that raises leaves the f-string.
\<close>

definition format_meas_text ::
  "'a \<Rightarrow> 'a \<Rightarrow> 'a \<Rightarrow> string \<Rightarrow> 'a meter_data \<Rightarrow> error + 'a meas_text" where
  "format_meas_text v cur pow datetime_string d =
     (case timedelta_seconds (recTime d) of
        Inl e \<Rightarrow> Inl e
      | Inr td_rec \<Rightarrow>
          (case timedelta_seconds (runTime d) of
             Inl e \<Rightarrow> Inl e
           | Inr td_run \<Rightarrow>
               Inr (Meas_text v cur pow datetime_string (ah d) (wh d) (recmA d) (recTime d)
                      (recGrp d + 1) (runTime d) (offHour d) (offPer d) (reserved d))))"

text \<open>
  Lines 230 to 249, with the text of the label, which is built only if the comparison
  holds. This gate reads the log period.
\<close>

definition status_gate :: "datetime \<Rightarrow> error + 'a meas_text \<Rightarrow> 'a app \<Rightarrow> 'a result" where
  "status_gate datetime_now meas_text s =
     (case exceeds datetime_now (the (last_meas_time s)) (log_period_ms s) of
        Inl e \<Rightarrow> Raise e s
      | Inr b \<Rightarrow>
          if b then
            (case meas_text of
               Inl e \<Rightarrow> Raise e s
             | Inr txt \<Rightarrow>
                 Return ((add_next_tick_callback (measurement_label_update txt) s)
                           \<lparr>last_meas_time := Some datetime_now\<rparr>))
          else Return s)"

text \<open>
  \<open>on_packet\<close>, with the reading of the clock (\<open>datetime.now()\<close>) as its first argument.
\<close>

definition on_packet ::
  "datetime \<Rightarrow> ('a::{uminus,times}) HIDPacket \<Rightarrow> 'a app \<Rightarrow> 'a result" where
  "on_packet datetime_now packet s0 =
     (if main_state s0 \<noteq> RUNNING then Return s0
      else if command packet \<noteq> DAT_RECV then Return s0
      else
        let datetime_string = strftime_HMS_ms datetime_now;
            s3 = initialise_times datetime_now s0;
            d = data packet;
            cur = (if invert_current s3 then - current d else current d);
            pow = voltage d * cur
        in
          case log_gate datetime_now
                 (Row datetime_now (voltage d) cur pow (ah d) (wh d) (recmA d) (recTime d)
                    (recGrp d + 1) (runTime d)) s3 of
            Raise e s \<Rightarrow> Raise e s
          | Return s4 \<Rightarrow>
              (case plot_gate datetime_now
                      (update_callback datetime_now datetime_string (voltage d) cur pow) s4 of
                 Raise e s \<Rightarrow> Raise e s
               | Return s5 \<Rightarrow>
                   status_gate datetime_now
                     (format_meas_text (voltage d) cur pow datetime_string d) s5))"

subsection \<open>The error callback\<close>


subsection \<open>The plot's data source\<close>

definition MAX_X_POINTS :: nat where
  "MAX_X_POINTS = 6000"

text \<open>
  Modelled from the spec: Bokeh's \<open>ColumnDataSource.stream(new_data, rollover)\<close>, a library
  routine that is not part of the source file. Following section 4.5, it pushes the new
  values to the back of the column and, if the resulting length exceeds the capacity,
  evicts from the front until the length equals the capacity.
\<close>

definition stream_column :: "nat \<Rightarrow> 'b list \<Rightarrow> 'b list \<Rightarrow> 'b list" where
  "stream_column rollover L new = (let L' = L @ new in drop (length L' - rollover) L')"

text \<open>
  Modelled from the spec: \<open>stream\<close> treats each of the five columns in this way, with the
  same capacity.
\<close>

definition stream ::
  "datetime list \<Rightarrow> string list \<Rightarrow> 'a list \<Rightarrow> 'a list \<Rightarrow> 'a list \<Rightarrow> nat
     \<Rightarrow> 'a ColumnDataSource \<Rightarrow> 'a ColumnDataSource" where
  "stream dts strs vs cs ps rollover ds =
     \<lparr>col_DateTime = stream_column rollover (col_DateTime ds) dts,
      col_DateTimeStr = stream_column rollover (col_DateTimeStr ds) strs,
      col_voltage = stream_column rollover (col_voltage ds) vs,
      col_current = stream_column rollover (col_current ds) cs,
      col_power = stream_column rollover (col_power ds) ps\<rparr>"

text \<open>\<open>update\<close>, on the data source.\<close>

definition update ::
  "datetime \<Rightarrow> string \<Rightarrow> 'a \<Rightarrow> 'a \<Rightarrow> 'a \<Rightarrow> 'a ColumnDataSource \<Rightarrow> 'a ColumnDataSource" where
  "update dt datetimestr v c p ds = stream [dt] [datetimestr] [v] [c] [p] MAX_X_POINTS ds"

subsection \<open>The user-interface loop\<close>

text \<open>
  The document runs the queued callbacks one at a time, in the order of their submission.
\<close>

fun run_callback :: "'a callback \<Rightarrow> 'a app \<Rightarrow> 'a app" where
  "run_callback (update_callback dt datetimestr v c p) s =
     s\<lparr>data_source := update dt datetimestr v c p (data_source s)\<rparr>"
| "run_callback (status_label_update t) s = s\<lparr>status_label_text := t\<rparr>"
| "run_callback (measurement_label_update t) s = s\<lparr>measurement_label_text := Some t\<rparr>"
| "run_callback (widget_update_disabled w b) s = widget_update w b s"
| "run_callback (new_title_update t) s = s\<lparr>new_title_text := t\<rparr>"

definition run_next_tick_callbacks :: "'a app \<Rightarrow> 'a app" where
  "run_next_tick_callbacks s = fold run_callback (next_tick_callbacks s) (s\<lparr>next_tick_callbacks := []\<rparr>)"

subsection \<open>The widgets' handlers\<close>

definition on_clear_plot_button :: "'a app \<Rightarrow> 'a app" where
  "on_clear_plot_button s = s\<lparr>data_source := empty_data\<rparr>"


definition on_open_conn_button :: "'a app \<Rightarrow> 'a app" where
  "on_open_conn_button s0 =
     (let s1 = widget_update device_select True s0;
          s2 = widget_update open_conn_button True s1;
          s3 = widget_update invert_sign_switch True s2;
          s4 = on_clear_plot_button s3
      in s4\<lparr>main_state := INITIALIZING\<rparr>)"


definition on_invert_sign_switch :: "bool \<Rightarrow> 'a app \<Rightarrow> 'a app" where
  "on_invert_sign_switch new s = s\<lparr>invert_current := new\<rparr>"



text \<open>\<open>on_start_log_button\<close>, with the reading of the clock as its first argument.\<close>

definition on_start_log_button :: "datetime \<Rightarrow> 'a app \<Rightarrow> 'a app" where
  "on_start_log_button now s0 =
     (let s1 = widget_update title_input True s0;
          s2 = widget_update log_period_input True s1;
          s3 = widget_update start_log_button True s2;
          s4 = widget_update stop_log_button False s3;
          s5 = widget_update clear_plot_button True s4;
          s6 = s5\<lparr>csv_file := strftime_file now @ ''_'' @ replace_spaces (plot_title s5) @ ''.csv''\<rparr>;
          s7 = on_clear_plot_button s6
      in s7\<lparr>logging := True\<rparr>)"



subsection \<open>The supervising loop\<close>

text \<open>The \<open>except\<close> branch of \<open>main_method\<close>.\<close>

definition connect_failed :: "exn \<Rightarrow> 'a app \<Rightarrow> 'a app" where
  "connect_failed e s0 =
     (let error_string = type_name e @ '': '' @ str e;
          s1 = add_next_tick_callback (status_label_update error_string) s0;
          s2 = add_next_tick_callback (widget_update_disabled device_select False) s1;
          s3 = add_next_tick_callback (widget_update_disabled open_conn_button False) s2;
          s4 = add_next_tick_callback (widget_update_disabled invert_sign_switch False) s3
      in s4\<lparr>main_state := STOPPED\<rparr>)"

text \<open>
  One pass through the body of \<open>while True\<close> in \<open>main_method\<close>; the argument says how the
  \<open>try\<close> block ends if this pass runs it. A call on \<open>meter\<close> while it is \<open>None\<close> raises, and
  nothing catches it: the thread ends.
\<close>

definition main_method_body :: "connect_outcome \<Rightarrow> 'a app \<Rightarrow> error + 'a app" where
  "main_method_body oc s0 =
     (if main_state s0 = STOPPED then Inr s0
      else if main_state s0 = INITIALIZING then
        (case oc of
           constructor_raises e \<Rightarrow> Inr (connect_failed e s0)
         | connect_raises e \<Rightarrow>
             Inr (connect_failed e
                    (s0\<lparr>meter := Some \<lparr>um_device = selected_device s0, um_connected = False,
                                       um_reading = False\<rparr>\<rparr>))
         | connects \<Rightarrow>
             (let s1 = s0\<lparr>meter := Some \<lparr>um_device = selected_device s0, um_connected = True,
                                         um_reading = False\<rparr>\<rparr>;
                  s2 = (if status_label_text s1 \<noteq> [] then
                          add_next_tick_callback (status_label_update []) s1
                        else s1);
                  s3 = add_next_tick_callback (widget_update_disabled close_conn_button False) s2;
                  s4 = s3\<lparr>meter := map_option (\<lambda>m. m\<lparr>um_reading := True\<rparr>) (meter s3)\<rparr>
              in Inr (s4\<lparr>main_state := RUNNING\<rparr>)))
      else if main_state s0 = RUNNING then Inr s0
      else
        (case meter s0 of
           None \<Rightarrow> Inl AttributeError
         | Some m \<Rightarrow>
             (let s1 = s0\<lparr>meter := Some (m\<lparr>um_reading := False, um_connected := False\<rparr>)\<rparr>;
                  s2 = add_next_tick_callback (widget_update_disabled device_select False) s1;
                  s3 = add_next_tick_callback (widget_update_disabled open_conn_button False) s2;
                  s4 = add_next_tick_callback (widget_update_disabled invert_sign_switch False) s3
              in Inr (s4\<lparr>main_state := STOPPED\<rparr>))))"

text \<open>
  \<open>main_method\<close> never returns; \<open>main_method n\<close> is its first \<open>n\<close> passes, run while no
  other thread writes the state.
\<close>

fun main_method :: "nat \<Rightarrow> connect_outcome \<Rightarrow> 'a app \<Rightarrow> error + 'a app" where
  "main_method 0 oc s = Inr s"
| "main_method (Suc n) oc s =
     (case main_method_body oc s of Inl e \<Rightarrow> Inl e | Inr s' \<Rightarrow> main_method n oc s')"

section \<open>Notions used in the statements\<close>

text \<open>
  The time stamp a gate of \<open>on_packet\<close> compares the clock with: its own, or the clock's
  reading when it is still \<open>None\<close> (the handler has just stored that reading in it).
\<close>

definition since :: "datetime \<Rightarrow> datetime option \<Rightarrow> datetime" where
  "since now prev = (case prev of None \<Rightarrow> now | Some l \<Rightarrow> l)"

text \<open>A period that \<open>timedelta\<close> accepts.\<close>

definition period_ok :: "int option \<Rightarrow> bool" where
  "period_ok p = (case timedelta_milliseconds p of Inl e \<Rightarrow> False | Inr td \<Rightarrow> True)"

text \<open>The comparison of a gate of \<open>on_packet\<close> is made (its period is accepted) and holds.\<close>

definition gate_open :: "datetime \<Rightarrow> datetime option \<Rightarrow> int option \<Rightarrow> bool" where
  "gate_open now prev period =
     (case timedelta_milliseconds period of
        Inl e \<Rightarrow> False
      | Inr td \<Rightarrow> dt_sub now (since now prev) > td)"

text \<open>
  Nothing raises in the log gate (line 210 to 218): logging is off, or the log period is
  accepted and the file can be appended to if the gate opens. Nothing raises up to the plot
  gate (line 220), and no period raises in the whole handler (the status gate, line 230,
  reads the log period whether logging is on or not).
\<close>

definition log_gate_returns :: "datetime \<Rightarrow> 'a app \<Rightarrow> bool" where
  "log_gate_returns now s =
     (\<not> logging s \<or>
      (period_ok (log_period_ms s) \<and>
       (\<not> gate_open now (last_log_time s) (log_period_ms s) \<or> can_append s (csv_file s))))"

definition plot_gate_returns :: "datetime \<Rightarrow> 'a app \<Rightarrow> bool" where
  "plot_gate_returns now s = (log_gate_returns now s \<and> period_ok (plot_period_ms s))"

definition no_raise :: "datetime \<Rightarrow> 'a app \<Rightarrow> bool" where
  "no_raise now s = (plot_gate_returns now s \<and> period_ok (log_period_ms s))"

text \<open>
  A number of seconds that \<open>timedelta\<close> accepts, and data whose recording time and uptime
  are such numbers: the text of the measurement label can be built from them.
\<close>

definition seconds_ok :: "int \<Rightarrow> bool" where
  "seconds_ok n = (case timedelta_seconds n of Inl e \<Rightarrow> False | Inr td \<Rightarrow> True)"

definition text_ok :: "'a meter_data \<Rightarrow> bool" where
  "text_ok d = (seconds_ok (recTime d) \<and> seconds_ok (runTime d))"

text \<open>
  Nothing raises in the whole handler: the periods and the log file are as above, and the
  text of the measurement label can be built if the status gate opens.
\<close>

definition returns :: "datetime \<Rightarrow> 'a HIDPacket \<Rightarrow> 'a app \<Rightarrow> bool" where
  "returns now p s =
     (no_raise now s \<and>
      (\<not> gate_open now (last_meas_time s) (log_period_ms s) \<or> text_ok (data p)))"

text \<open>The values \<open>current\<close> and \<open>power\<close> that \<open>on_packet\<close> computes from a packet's data.\<close>

definition sample_current :: "bool \<Rightarrow> ('a::{uminus,times}) meter_data \<Rightarrow> 'a" where
  "sample_current invert d = (if invert then - current d else current d)"

definition sample_power :: "bool \<Rightarrow> ('a::{uminus,times}) meter_data \<Rightarrow> 'a" where
  "sample_power invert d = voltage d * sample_current invert d"

text \<open>
  The device delivering packets one after the other, each at its own clock reading, until
  the handler raises.
\<close>

fun deliver ::
  "(datetime \<times> ('a::{uminus,times}) HIDPacket) list \<Rightarrow> 'a app \<Rightarrow> 'a result" where
  "deliver [] s = Return s"
| "deliver ((now, p) # ps) s =
     (case on_packet now p s of Return s' \<Rightarrow> deliver ps s' | Raise e s' \<Rightarrow> Raise e s')"

text \<open>The points of a plot, and \<open>update\<close> called with each of them in turn.\<close>

type_synonym 'a point = "datetime \<times> string \<times> 'a \<times> 'a \<times> 'a"

fun updates :: "'a point list \<Rightarrow> 'a ColumnDataSource \<Rightarrow> 'a ColumnDataSource" where
  "updates [] ds = ds"
| "updates ((dt, datetimestr, v, c, p) # pts) ds = updates pts (update dt datetimestr v c p ds)"

text \<open>Clock readings of one day, by their milliseconds after noon (below one second).\<close>

definition noon_plus_ms :: "int \<Rightarrow> datetime" where
  "noon_plus_ms k =
     \<lparr>dt_year = 2023, dt_month = 11, dt_day = 25, dt_hour = 12, dt_minute = 0, dt_second = 0,
      dt_microsecond = 1000 * k\<rparr>"

text \<open>A measurement packet: 5 V, 2 A.\<close>

definition sample_packet :: "int HIDPacket" where
  "sample_packet =
     \<lparr>command = DAT_RECV,
      data = \<lparr>voltage = 5, current = 2, ah = 0, wh = 0, recmA = 50, recTime = 7, recGrp = 0,
              runTime = 60, offHour = 0, offPer = 0, reserved = 0\<rparr>\<rparr>"

text \<open>
  A running application whose plot period the user has set to 250 ms; nothing else differs
  from the initial state (no time stamp is set yet, logging is off, the log period is 250 ms).
\<close>

definition running_250 :: "int app" where
  "running_250 = initial\<lparr>main_state := RUNNING, plot_period_ms := Some 250\<rparr>"




section \<open>Properties of the packet handler\<close>

lemma since_Some_since: "since now (Some (since now prev)) = since now prev"
  by (simp add: since_def)

lemma initialise_times_stamps:
  "last_meas_time (initialise_times now s) = Some (since now (last_meas_time s))"
  "last_log_time (initialise_times now s) = Some (since now (last_log_time s))"
  "last_plot_time (initialise_times now s) = Some (since now (last_plot_time s))"
  by (simp_all add: initialise_times_def Let_def since_def split: option.splits)

lemma initialise_times_fields:
  "plot_title (initialise_times now s) = plot_title s"
  "logging (initialise_times now s) = logging s"
  "log_period_ms (initialise_times now s) = log_period_ms s"
  "csv_file (initialise_times now s) = csv_file s"
  "plot_period_ms (initialise_times now s) = plot_period_ms s"
  "meter (initialise_times now s) = meter s"
  "invert_current (initialise_times now s) = invert_current s"
  "selected_device (initialise_times now s) = selected_device s"
  "main_state (initialise_times now s) = main_state s"
  "data_source (initialise_times now s) = data_source s"
  "disabled (initialise_times now s) = disabled s"
  "status_label_text (initialise_times now s) = status_label_text s"
  "measurement_label_text (initialise_times now s) = measurement_label_text s"
  "new_title_text (initialise_times now s) = new_title_text s"
  "next_tick_callbacks (initialise_times now s) = next_tick_callbacks s"
  "files (initialise_times now s) = files s"
  "can_append (initialise_times now s) = can_append s"
  by (simp_all add: initialise_times_def Let_def)

lemma gate_open_Some_since:
  "gate_open now (Some (since now prev)) period = gate_open now prev period"
  by (simp add: gate_open_def since_Some_since split: sum.splits)

lemma log_gate_eq:
  assumes "last_log_time s = Some l"
  shows "log_gate_returns now s \<Longrightarrow>
           log_gate now row s =
             Return (if logging s \<and> gate_open now (last_log_time s) (log_period_ms s)
                     then s\<lparr>files := append_row (csv_file s) row (files s),
                            last_log_time := Some now\<rparr>
                     else s)"
    and "\<not> log_gate_returns now s \<Longrightarrow> \<exists>e. log_gate now row s = Raise e s"
    and "logging s \<Longrightarrow> gate_open now (last_log_time s) (log_period_ms s) \<Longrightarrow>
           \<not> can_append s (csv_file s) \<Longrightarrow> log_gate now row s = Raise OSError s"
  using assms
  by (auto simp: log_gate_def exceeds_def gate_open_def period_ok_def log_gate_returns_def
      since_def split: sum.splits)

lemma plot_gate_eq:
  assumes "last_plot_time s = Some l"
  shows "period_ok (plot_period_ms s) \<Longrightarrow>
           plot_gate now cb s =
             Return (if gate_open now (last_plot_time s) (plot_period_ms s)
                     then (add_next_tick_callback cb s)\<lparr>last_plot_time := Some now\<rparr>
                     else s)"
    and "\<not> period_ok (plot_period_ms s) \<Longrightarrow> \<exists>e. plot_gate now cb s = Raise e s"
  using assms
  by (auto simp: plot_gate_def exceeds_def gate_open_def period_ok_def since_def
      split: sum.splits)

lemma status_gate_eq:
  assumes "last_meas_time s = Some l"
  shows "period_ok (log_period_ms s) \<Longrightarrow>
           \<not> gate_open now (last_meas_time s) (log_period_ms s) \<Longrightarrow>
           status_gate now txt s = Return s"
    and "gate_open now (last_meas_time s) (log_period_ms s) \<Longrightarrow>
           status_gate now (Inr t) s =
             Return ((add_next_tick_callback (measurement_label_update t) s)
                       \<lparr>last_meas_time := Some now\<rparr>)"
    and "gate_open now (last_meas_time s) (log_period_ms s) \<Longrightarrow>
           status_gate now (Inl e) s = Raise e s"
    and "\<not> period_ok (log_period_ms s) \<Longrightarrow> \<exists>e. status_gate now txt s = Raise e s"
  using assms
  by (auto simp: status_gate_def exceeds_def gate_open_def period_ok_def since_def
      split: sum.splits)

lemma format_meas_text_eq:
  "text_ok d \<Longrightarrow>
     format_meas_text v c w tm d =
       Inr (Meas_text v c w tm (ah d) (wh d) (recmA d) (recTime d) (recGrp d + 1) (runTime d)
              (offHour d) (offPer d) (reserved d))"
  "\<not> text_ok d \<Longrightarrow> \<exists>e. format_meas_text v c w tm d = Inl e"
  by (auto simp: format_meas_text_def text_ok_def seconds_ok_def split: sum.splits)

lemma on_packet_not_processed:
  "main_state s \<noteq> RUNNING \<or> command p \<noteq> DAT_RECV \<Longrightarrow> on_packet now p s = Return s"
  by (auto simp: on_packet_def)

lemma on_packet_gates:
  assumes "main_state s = RUNNING" "command p = DAT_RECV"
  shows "on_packet now p s =
    (case log_gate now
            (Row now (voltage (data p)) (sample_current (invert_current s) (data p))
               (sample_power (invert_current s) (data p)) (ah (data p)) (wh (data p))
               (recmA (data p)) (recTime (data p)) (recGrp (data p) + 1) (runTime (data p)))
            (initialise_times now s) of
       Raise e s \<Rightarrow> Raise e s
     | Return s4 \<Rightarrow>
         (case plot_gate now
                 (update_callback now (strftime_HMS_ms now) (voltage (data p))
                    (sample_current (invert_current s) (data p))
                    (sample_power (invert_current s) (data p))) s4 of
            Raise e s \<Rightarrow> Raise e s
          | Return s5 \<Rightarrow>
              status_gate now
                (format_meas_text (voltage (data p)) (sample_current (invert_current s) (data p))
                   (sample_power (invert_current s) (data p)) (strftime_HMS_ms now) (data p))
                s5))"
  using assms
  unfolding on_packet_def Let_def sample_current_def [symmetric] sample_power_def [symmetric]
    initialise_times_fields(7)
  by simp


text \<open>
  The handler on a measurement packet while running, followed through its four ways out:
  the log gate raises, the plot gate raises, the status gate raises, or it returns.
\<close>

lemma on_packet_running:
  assumes "main_state s = RUNNING" "command p = DAT_RECV"
  shows "(is_Return (on_packet now p s) \<longleftrightarrow> returns now p s) \<and>
    last_log_time (state_of (on_packet now p s)) =
      Some (if logging s \<and> gate_open now (last_log_time s) (log_period_ms s) \<and>
               can_append s (csv_file s)
            then now else since now (last_log_time s)) \<and>
    files (state_of (on_packet now p s)) =
      (if logging s \<and> gate_open now (last_log_time s) (log_period_ms s) \<and>
          can_append s (csv_file s)
       then append_row (csv_file s)
              (Row now (voltage (data p)) (sample_current (invert_current s) (data p))
                 (sample_power (invert_current s) (data p)) (ah (data p)) (wh (data p))
                 (recmA (data p)) (recTime (data p)) (recGrp (data p) + 1)
                 (runTime (data p)))
            (files s)
       else files s) \<and>
    last_plot_time (state_of (on_packet now p s)) =
      Some (if log_gate_returns now s \<and> gate_open now (last_plot_time s) (plot_period_ms s)
            then now else since now (last_plot_time s)) \<and>
    last_meas_time (state_of (on_packet now p s)) =
      Some (if plot_gate_returns now s \<and> gate_open now (last_meas_time s) (log_period_ms s) \<and>
               text_ok (data p)
            then now else since now (last_meas_time s)) \<and>
    next_tick_callbacks (state_of (on_packet now p s)) =
      next_tick_callbacks s
      @ (if log_gate_returns now s \<and> gate_open now (last_plot_time s) (plot_period_ms s)
         then [update_callback now (strftime_HMS_ms now) (voltage (data p))
                 (sample_current (invert_current s) (data p))
                 (sample_power (invert_current s) (data p))]
         else [])
      @ (if plot_gate_returns now s \<and> gate_open now (last_meas_time s) (log_period_ms s) \<and>
            text_ok (data p)
         then [measurement_label_update
                (Meas_text (voltage (data p)) (sample_current (invert_current s) (data p))
                   (sample_power (invert_current s) (data p)) (strftime_HMS_ms now)
                   (ah (data p)) (wh (data p)) (recmA (data p)) (recTime (data p))
                   (recGrp (data p) + 1) (runTime (data p)) (offHour (data p))
                   (offPer (data p)) (reserved (data p)))]
         else []) \<and>
    main_state (state_of (on_packet now p s)) = main_state s \<and>
    logging (state_of (on_packet now p s)) = logging s \<and>
    data_source (state_of (on_packet now p s)) = data_source s \<and>
    plot_title (state_of (on_packet now p s)) = plot_title s \<and>
    log_period_ms (state_of (on_packet now p s)) = log_period_ms s \<and>
    csv_file (state_of (on_packet now p s)) = csv_file s \<and>
    plot_period_ms (state_of (on_packet now p s)) = plot_period_ms s \<and>
    meter (state_of (on_packet now p s)) = meter s \<and>
    invert_current (state_of (on_packet now p s)) = invert_current s \<and>
    selected_device (state_of (on_packet now p s)) = selected_device s \<and>
    disabled (state_of (on_packet now p s)) = disabled s \<and>
    status_label_text (state_of (on_packet now p s)) = status_label_text s \<and>
    measurement_label_text (state_of (on_packet now p s)) = measurement_label_text s \<and>
    new_title_text (state_of (on_packet now p s)) = new_title_text s \<and>
    can_append (state_of (on_packet now p s)) = can_append s"
proof -
  let ?s3 = "initialise_times now s"
  let ?row = "Row now (voltage (data p)) (sample_current (invert_current s) (data p))
                 (sample_power (invert_current s) (data p)) (ah (data p)) (wh (data p))
                 (recmA (data p)) (recTime (data p)) (recGrp (data p) + 1) (runTime (data p))"
  let ?u = "update_callback now (strftime_HMS_ms now) (voltage (data p))
                 (sample_current (invert_current s) (data p))
                 (sample_power (invert_current s) (data p))"
  let ?m = "measurement_label_update
                (Meas_text (voltage (data p)) (sample_current (invert_current s) (data p))
                   (sample_power (invert_current s) (data p)) (strftime_HMS_ms now)
                   (ah (data p)) (wh (data p)) (recmA (data p)) (recTime (data p))
                   (recGrp (data p) + 1) (runTime (data p)) (offHour (data p))
                   (offPer (data p)) (reserved (data p)))"
  let ?f = "format_meas_text (voltage (data p)) (sample_current (invert_current s) (data p))
              (sample_power (invert_current s) (data p)) (strftime_HMS_ms now) (data p)"
  note f3 = initialise_times_fields initialise_times_stamps gate_open_Some_since
  note unfold = on_packet_gates [OF assms, of now]
  have g3: "log_gate_returns now ?s3 = log_gate_returns now s"
    by (simp add: log_gate_returns_def f3)
  show ?thesis
  proof (cases "log_gate_returns now s")
    case False
    with g3 have "\<not> log_gate_returns now ?s3" by simp
    from log_gate_eq(2) [OF initialise_times_stamps(2) this]
    obtain e where "log_gate now ?row ?s3 = Raise e ?s3" by blast
    then have r: "on_packet now p s = Raise e ?s3"
      by (simp add: unfold)
    from False have "\<not> (logging s \<and> gate_open now (last_log_time s) (log_period_ms s) \<and>
        can_append s (csv_file s))"
      by (auto simp: log_gate_returns_def gate_open_def period_ok_def split: sum.splits)
    with False show ?thesis
      by (auto simp: r f3 plot_gate_returns_def no_raise_def returns_def)
  next
    case lg: True
    define s4 where "s4 =
      (if logging ?s3 \<and> gate_open now (last_log_time ?s3) (log_period_ms ?s3)
       then ?s3\<lparr>files := append_row (csv_file ?s3) ?row (files ?s3),
                 last_log_time := Some now\<rparr>
       else ?s3)"
    have l4: "log_gate now ?row ?s3 = Return s4"
      unfolding s4_def using lg g3
      by (intro log_gate_eq(1) [OF initialise_times_stamps(2)]) simp
    from lg have ca: "logging s \<and> gate_open now (last_log_time s) (log_period_ms s) \<longrightarrow>
        can_append s (csv_file s)"
      by (auto simp: log_gate_returns_def)
    have f4: "last_plot_time s4 = Some (since now (last_plot_time s))"
      "last_meas_time s4 = Some (since now (last_meas_time s))"
      "plot_period_ms s4 = plot_period_ms s" "log_period_ms s4 = log_period_ms s"
      "next_tick_callbacks s4 = next_tick_callbacks s"
      "main_state s4 = main_state s" "logging s4 = logging s"
      "data_source s4 = data_source s" "plot_title s4 = plot_title s"
      "csv_file s4 = csv_file s" "meter s4 = meter s" "invert_current s4 = invert_current s"
      "selected_device s4 = selected_device s" "disabled s4 = disabled s"
      "status_label_text s4 = status_label_text s"
      "measurement_label_text s4 = measurement_label_text s"
      "new_title_text s4 = new_title_text s" "can_append s4 = can_append s"
      by (simp_all add: s4_def f3)
    have f4': "last_log_time s4 =
        Some (if logging s \<and> gate_open now (last_log_time s) (log_period_ms s) \<and>
                 can_append s (csv_file s)
              then now else since now (last_log_time s))"
      "files s4 =
        (if logging s \<and> gate_open now (last_log_time s) (log_period_ms s) \<and>
            can_append s (csv_file s)
         then append_row (csv_file s) ?row (files s) else files s)"
      using ca by (auto simp: s4_def f3)
    show ?thesis
    proof (cases "period_ok (plot_period_ms s)")
      case False
      then have "\<not> period_ok (plot_period_ms s4)" by (simp add: f4)
      from plot_gate_eq(2) [OF f4(1) this]
      obtain e where "plot_gate now ?u s4 = Raise e s4" by blast
      then have r: "on_packet now p s = Raise e s4"
        by (simp add: unfold l4)
      from False have "\<not> gate_open now (last_plot_time s) (plot_period_ms s)"
        by (auto simp: gate_open_def period_ok_def split: sum.splits)
      with False lg show ?thesis
        by (auto simp: r f4 f4' plot_gate_returns_def no_raise_def returns_def)
    next
      case pg: True
      define s5 where "s5 =
        (if gate_open now (last_plot_time s4) (plot_period_ms s4)
         then (add_next_tick_callback ?u s4)\<lparr>last_plot_time := Some now\<rparr>
         else s4)"
      have l5: "plot_gate now ?u s4 = Return s5"
        unfolding s5_def using pg
        by (intro plot_gate_eq(1) [OF f4(1)]) (simp add: f4)
      have f5: "last_meas_time s5 = Some (since now (last_meas_time s))"
        "log_period_ms s5 = log_period_ms s"
        "main_state s5 = main_state s" "logging s5 = logging s"
        "data_source s5 = data_source s" "plot_title s5 = plot_title s"
        "csv_file s5 = csv_file s" "meter s5 = meter s" "invert_current s5 = invert_current s"
        "selected_device s5 = selected_device s" "disabled s5 = disabled s"
        "status_label_text s5 = status_label_text s"
        "measurement_label_text s5 = measurement_label_text s"
        "new_title_text s5 = new_title_text s" "can_append s5 = can_append s"
        "plot_period_ms s5 = plot_period_ms s"
        "last_log_time s5 = last_log_time s4" "files s5 = files s4"
        by (simp_all add: s5_def f4 add_next_tick_callback_def)
      have f5': "last_plot_time s5 =
          Some (if gate_open now (last_plot_time s) (plot_period_ms s)
                then now else since now (last_plot_time s))"
        "next_tick_callbacks s5 =
          next_tick_callbacks s
            @ (if gate_open now (last_plot_time s) (plot_period_ms s) then [?u] else [])"
        by (simp_all add: s5_def f4 add_next_tick_callback_def gate_open_Some_since)
      show ?thesis
      proof (cases "period_ok (log_period_ms s)")
        case False
        then have "\<not> period_ok (log_period_ms s5)" by (simp add: f5)
        from status_gate_eq(4) [OF f5(1) this]
        obtain e where "status_gate now ?f s5 = Raise e s5" by blast
        then have r: "on_packet now p s = Raise e s5"
          by (simp add: unfold l4 l5)
        from False have "\<not> gate_open now (last_meas_time s) (log_period_ms s)"
          by (auto simp: gate_open_def period_ok_def split: sum.splits)
        with False lg pg show ?thesis
          by (auto simp: r f5 f5' f4' plot_gate_returns_def no_raise_def returns_def)
      next
        case sg: True
        have g5: "gate_open now (last_meas_time s5) (log_period_ms s5) =
            gate_open now (last_meas_time s) (log_period_ms s)"
          by (simp add: f5 gate_open_Some_since)
        show ?thesis
        proof (cases "gate_open now (last_meas_time s) (log_period_ms s)")
          case False
          then have "status_gate now ?f s5 = Return s5"
            using sg by (intro status_gate_eq(1) [OF f5(1)]) (simp_all add: f5 gate_open_Some_since)
          then have r: "on_packet now p s = Return s5"
            by (simp add: unfold l4 l5)
          from lg pg sg False show ?thesis
            by (auto simp: r f5 f5' f4' plot_gate_returns_def no_raise_def returns_def)
        next
          case go: True
          show ?thesis
          proof (cases "text_ok (data p)")
            case False
            from format_meas_text_eq(2) [OF this]
            obtain e where "?f = Inl e" by blast
            then have "status_gate now ?f s5 = Raise e s5"
              using go by (simp add: status_gate_eq(3) [OF f5(1)] g5)
            then have r: "on_packet now p s = Raise e s5"
              by (simp add: unfold l4 l5)
            from lg pg sg go False show ?thesis
              by (auto simp: r f5 f5' f4' plot_gate_returns_def no_raise_def returns_def)
          next
            case True
            define s6 where
              "s6 = (add_next_tick_callback ?m s5)\<lparr>last_meas_time := Some now\<rparr>"
            have "?f = Inr (Meas_text (voltage (data p))
                   (sample_current (invert_current s) (data p))
                   (sample_power (invert_current s) (data p)) (strftime_HMS_ms now)
                   (ah (data p)) (wh (data p)) (recmA (data p)) (recTime (data p))
                   (recGrp (data p) + 1) (runTime (data p)) (offHour (data p))
                   (offPer (data p)) (reserved (data p)))"
              using True by (rule format_meas_text_eq(1))
            then have "status_gate now ?f s5 = Return s6"
              unfolding s6_def using go by (simp add: status_gate_eq(2) [OF f5(1)] g5)
            then have r: "on_packet now p s = Return s6"
              by (simp add: unfold l4 l5)
            from lg pg sg go True show ?thesis
              by (auto simp: r s6_def f5 f5' f4' add_next_tick_callback_def
                  plot_gate_returns_def no_raise_def returns_def)
          qed
        qed
      qed
    qed
  qed
qed

lemma on_packet_is_Return:
  assumes "main_state s = RUNNING" "command p = DAT_RECV"
  shows "is_Return (on_packet now p s) \<longleftrightarrow> returns now p s"
  using on_packet_running [OF assms, of now] by simp

lemma on_packet_last_log_time:
  assumes "main_state s = RUNNING" "command p = DAT_RECV"
  shows "last_log_time (state_of (on_packet now p s)) =
     Some (if logging s \<and> gate_open now (last_log_time s) (log_period_ms s) \<and>
              can_append s (csv_file s)
           then now else since now (last_log_time s))"
  using on_packet_running [OF assms, of now] by simp

lemma on_packet_files:
  assumes "main_state s = RUNNING" "command p = DAT_RECV"
  shows "files (state_of (on_packet now p s)) =
     (if logging s \<and> gate_open now (last_log_time s) (log_period_ms s) \<and>
         can_append s (csv_file s)
      then append_row (csv_file s)
             (Row now (voltage (data p)) (sample_current (invert_current s) (data p))
                (sample_power (invert_current s) (data p)) (ah (data p)) (wh (data p))
                (recmA (data p)) (recTime (data p)) (recGrp (data p) + 1) (runTime (data p)))
            (files s)
      else files s)"
  using on_packet_running [OF assms, of now] by simp

lemma on_packet_last_plot_time:
  assumes "main_state s = RUNNING" "command p = DAT_RECV"
  shows "last_plot_time (state_of (on_packet now p s)) =
     Some (if log_gate_returns now s \<and> gate_open now (last_plot_time s) (plot_period_ms s)
           then now else since now (last_plot_time s))"
  using on_packet_running [OF assms, of now] by simp

lemma on_packet_last_meas_time:
  assumes "main_state s = RUNNING" "command p = DAT_RECV"
  shows "last_meas_time (state_of (on_packet now p s)) =
     Some (if plot_gate_returns now s \<and> gate_open now (last_meas_time s) (log_period_ms s) \<and>
              text_ok (data p)
           then now else since now (last_meas_time s))"
  using on_packet_running [OF assms, of now] by simp

lemma on_packet_next_tick_callbacks:
  assumes "main_state s = RUNNING" "command p = DAT_RECV"
  shows "next_tick_callbacks (state_of (on_packet now p s)) =
     next_tick_callbacks s
     @ (if log_gate_returns now s \<and> gate_open now (last_plot_time s) (plot_period_ms s)
        then [update_callback now (strftime_HMS_ms now) (voltage (data p))
                (sample_current (invert_current s) (data p))
                (sample_power (invert_current s) (data p))]
        else [])
     @ (if plot_gate_returns now s \<and> gate_open now (last_meas_time s) (log_period_ms s) \<and>
           text_ok (data p)
        then [measurement_label_update
               (Meas_text (voltage (data p)) (sample_current (invert_current s) (data p))
                  (sample_power (invert_current s) (data p)) (strftime_HMS_ms now)
                  (ah (data p)) (wh (data p)) (recmA (data p)) (recTime (data p))
                  (recGrp (data p) + 1) (runTime (data p)) (offHour (data p))
                  (offPer (data p)) (reserved (data p)))]
        else [])"
  using on_packet_running [OF assms, of now] by simp

lemma on_packet_other_fields:
  "main_state (state_of (on_packet now p s)) = main_state s"
  "logging (state_of (on_packet now p s)) = logging s"
  "data_source (state_of (on_packet now p s)) = data_source s"
  "plot_title (state_of (on_packet now p s)) = plot_title s"
  "log_period_ms (state_of (on_packet now p s)) = log_period_ms s"
  "csv_file (state_of (on_packet now p s)) = csv_file s"
  "plot_period_ms (state_of (on_packet now p s)) = plot_period_ms s"
  "meter (state_of (on_packet now p s)) = meter s"
  "invert_current (state_of (on_packet now p s)) = invert_current s"
  "selected_device (state_of (on_packet now p s)) = selected_device s"
  "disabled (state_of (on_packet now p s)) = disabled s"
  "status_label_text (state_of (on_packet now p s)) = status_label_text s"
  "measurement_label_text (state_of (on_packet now p s)) = measurement_label_text s"
  "new_title_text (state_of (on_packet now p s)) = new_title_text s"
  "can_append (state_of (on_packet now p s)) = can_append s"
proof -
  have "main_state (state_of (on_packet now p s)) = main_state s \<and>
    logging (state_of (on_packet now p s)) = logging s \<and>
    data_source (state_of (on_packet now p s)) = data_source s \<and>
    plot_title (state_of (on_packet now p s)) = plot_title s \<and>
    log_period_ms (state_of (on_packet now p s)) = log_period_ms s \<and>
    csv_file (state_of (on_packet now p s)) = csv_file s \<and>
    plot_period_ms (state_of (on_packet now p s)) = plot_period_ms s \<and>
    meter (state_of (on_packet now p s)) = meter s \<and>
    invert_current (state_of (on_packet now p s)) = invert_current s \<and>
    selected_device (state_of (on_packet now p s)) = selected_device s \<and>
    disabled (state_of (on_packet now p s)) = disabled s \<and>
    status_label_text (state_of (on_packet now p s)) = status_label_text s \<and>
    measurement_label_text (state_of (on_packet now p s)) = measurement_label_text s \<and>
    new_title_text (state_of (on_packet now p s)) = new_title_text s \<and>
    can_append (state_of (on_packet now p s)) = can_append s"
  proof (cases "main_state s = RUNNING \<and> command p = DAT_RECV")
    case True
    then have "main_state s = RUNNING" "command p = DAT_RECV" by simp_all
    from on_packet_running [OF this, of now] show ?thesis by simp
  next
    case False
    then have "main_state s \<noteq> RUNNING \<or> command p \<noteq> DAT_RECV" by simp
    then have "on_packet now p s = Return s" by (rule on_packet_not_processed)
    then show ?thesis by simp
  qed
  then show
    "main_state (state_of (on_packet now p s)) = main_state s"
    "logging (state_of (on_packet now p s)) = logging s"
    "data_source (state_of (on_packet now p s)) = data_source s"
    "plot_title (state_of (on_packet now p s)) = plot_title s"
    "log_period_ms (state_of (on_packet now p s)) = log_period_ms s"
    "csv_file (state_of (on_packet now p s)) = csv_file s"
    "plot_period_ms (state_of (on_packet now p s)) = plot_period_ms s"
    "meter (state_of (on_packet now p s)) = meter s"
    "invert_current (state_of (on_packet now p s)) = invert_current s"
    "selected_device (state_of (on_packet now p s)) = selected_device s"
    "disabled (state_of (on_packet now p s)) = disabled s"
    "status_label_text (state_of (on_packet now p s)) = status_label_text s"
    "measurement_label_text (state_of (on_packet now p s)) = measurement_label_text s"
    "new_title_text (state_of (on_packet now p s)) = new_title_text s"
    "can_append (state_of (on_packet now p s)) = can_append s"
    by simp_all
qed


lemmas on_packet_fields =
  on_packet_last_plot_time on_packet_last_log_time on_packet_last_meas_time
  on_packet_next_tick_callbacks on_packet_files on_packet_other_fields

lemma on_packet_Return:
  assumes "main_state s = RUNNING" "command p = DAT_RECV" "returns now p s"
  shows "on_packet now p s = Return (state_of (on_packet now p s))"
  using on_packet_is_Return [OF assms(1,2), of now] assms(3) by simp

lemma period_ok_simps:
  "period_ok None = False"
  "period_ok (Some n) \<longleftrightarrow> - 999999999 \<le> n div 86400000 \<and> n div 86400000 \<le> 999999999"
  by (simp_all add: period_ok_def timedelta_milliseconds_def)

lemma gate_open_simps:
  "gate_open now prev None = False"
  "gate_open now None (Some n) \<longleftrightarrow> period_ok (Some n) \<and> n < 0"
  "gate_open now (Some l) (Some n) \<longleftrightarrow> period_ok (Some n) \<and> 1000 * n < dt_sub now l"
  by (auto simp: gate_open_def period_ok_def timedelta_milliseconds_def since_def dt_sub_def)

lemma no_raise_iff:
  "no_raise now s \<longleftrightarrow>
     period_ok (log_period_ms s) \<and> period_ok (plot_period_ms s) \<and>
     (logging s \<and> gate_open now (last_log_time s) (log_period_ms s) \<longrightarrow>
        can_append s (csv_file s))"
  by (auto simp: no_raise_def plot_gate_returns_def log_gate_returns_def)

lemma seconds_ok_iff:
  "seconds_ok n \<longleftrightarrow> - 999999999 \<le> n div 86400 \<and> n div 86400 \<le> 999999999"
  by (simp add: seconds_ok_def timedelta_seconds_def)

lemma text_ok_sample_packet: "text_ok (data sample_packet)"
  by (simp add: text_ok_def seconds_ok_iff sample_packet_def)

lemma returns_sample_packet: "returns now sample_packet s = no_raise now s"
  by (simp add: returns_def text_ok_sample_packet)

lemma no_raise_gates: "no_raise now s \<Longrightarrow> log_gate_returns now s \<and> plot_gate_returns now s"
  by (simp add: no_raise_def plot_gate_returns_def)

lemma dt_sub_noon_plus_ms: "dt_sub (noon_plus_ms a) (noon_plus_ms b) = 1000 * (a - b)"
  by (simp add: dt_sub_def total_microseconds_def toordinal_def noon_plus_ms_def)

lemma command_sample_packet: "command sample_packet = DAT_RECV"
  by (simp add: sample_packet_def)

text \<open>
  Five samples, 100 ms apart, reach a gate of period 250 ms that has not fired yet. The
  handler is followed sample by sample; after each, the fields the next one reads are known.
\<close>

lemma five_samples_250:
  "is_Return
     (deliver [(noon_plus_ms 0, sample_packet), (noon_plus_ms 100, sample_packet),
               (noon_plus_ms 200, sample_packet), (noon_plus_ms 300, sample_packet),
               (noon_plus_ms 400, sample_packet)] running_250) \<and>
   next_tick_callbacks
     (state_of
        (deliver [(noon_plus_ms 0, sample_packet), (noon_plus_ms 100, sample_packet),
                  (noon_plus_ms 200, sample_packet), (noon_plus_ms 300, sample_packet),
                  (noon_plus_ms 400, sample_packet)] running_250)) =
   [update_callback (noon_plus_ms 300) ''12:00:00.300'' 5 (- 2) (- 10),
    measurement_label_update (Meas_text 5 (- 2) (- 10) ''12:00:00.300'' 0 0 50 7 1 60 0 0 0)]"
proof -
  note step = on_packet_fields command_sample_packet gate_open_simps period_ok_simps since_def
    text_ok_sample_packet
    dt_sub_noon_plus_ms log_gate_returns_def plot_gate_returns_def
  note ret = on_packet_Return [OF _ command_sample_packet]
  have s0: "main_state running_250 = RUNNING" "\<not> logging running_250"
    "plot_period_ms running_250 = Some 250" "log_period_ms running_250 = Some 250"
    "invert_current running_250" "last_plot_time running_250 = None"
    "last_meas_time running_250 = None" "next_tick_callbacks running_250 = []"
    by (simp_all add: running_250_def initial_def)
  define s1 where "s1 = state_of (on_packet (noon_plus_ms 0) sample_packet running_250)"
  have r1: "on_packet (noon_plus_ms 0) sample_packet running_250 = Return s1"
    unfolding s1_def by (rule ret) (simp_all add: s0 returns_sample_packet no_raise_iff period_ok_simps)
  have s1: "main_state s1 = RUNNING" "\<not> logging s1" "plot_period_ms s1 = Some 250"
    "log_period_ms s1 = Some 250" "invert_current s1" "last_plot_time s1 = Some (noon_plus_ms 0)"
    "last_meas_time s1 = Some (noon_plus_ms 0)" "next_tick_callbacks s1 = []"
    unfolding s1_def by (simp_all add: step s0)
  define s2 where "s2 = state_of (on_packet (noon_plus_ms 100) sample_packet s1)"
  have r2: "on_packet (noon_plus_ms 100) sample_packet s1 = Return s2"
    unfolding s2_def by (rule ret) (simp_all add: s1 returns_sample_packet no_raise_iff period_ok_simps)
  have s2: "main_state s2 = RUNNING" "\<not> logging s2" "plot_period_ms s2 = Some 250"
    "log_period_ms s2 = Some 250" "invert_current s2" "last_plot_time s2 = Some (noon_plus_ms 0)"
    "last_meas_time s2 = Some (noon_plus_ms 0)" "next_tick_callbacks s2 = []"
    unfolding s2_def by (simp_all add: step s1)
  define s3 where "s3 = state_of (on_packet (noon_plus_ms 200) sample_packet s2)"
  have r3: "on_packet (noon_plus_ms 200) sample_packet s2 = Return s3"
    unfolding s3_def by (rule ret) (simp_all add: s2 returns_sample_packet no_raise_iff period_ok_simps)
  have s3: "main_state s3 = RUNNING" "\<not> logging s3" "plot_period_ms s3 = Some 250"
    "log_period_ms s3 = Some 250" "invert_current s3" "last_plot_time s3 = Some (noon_plus_ms 0)"
    "last_meas_time s3 = Some (noon_plus_ms 0)" "next_tick_callbacks s3 = []"
    unfolding s3_def by (simp_all add: step s2)
  let ?c = "[update_callback (noon_plus_ms 300) ''12:00:00.300'' 5 (- 2) (- 10),
    measurement_label_update (Meas_text 5 (- 2) (- 10) ''12:00:00.300'' 0 0 50 7 1 60 0 0 0)]"
  define s4 where "s4 = state_of (on_packet (noon_plus_ms 300) sample_packet s3)"
  have r4: "on_packet (noon_plus_ms 300) sample_packet s3 = Return s4"
    unfolding s4_def by (rule ret) (simp_all add: s3 returns_sample_packet no_raise_iff period_ok_simps)
  have s4: "main_state s4 = RUNNING" "\<not> logging s4" "plot_period_ms s4 = Some 250"
    "log_period_ms s4 = Some 250" "invert_current s4" "last_plot_time s4 = Some (noon_plus_ms 300)"
    "last_meas_time s4 = Some (noon_plus_ms 300)" "next_tick_callbacks s4 = ?c"
    unfolding s4_def
    by (simp_all add: step s3 sample_current_def sample_power_def)
      (simp_all add: sample_packet_def strftime_HMS_ms_def pad2_def pad3_def digit_def
        noon_plus_ms_def)
  define s5 where "s5 = state_of (on_packet (noon_plus_ms 400) sample_packet s4)"
  have r5: "on_packet (noon_plus_ms 400) sample_packet s4 = Return s5"
    unfolding s5_def by (rule ret) (simp_all add: s4 returns_sample_packet no_raise_iff period_ok_simps)
  have s5: "next_tick_callbacks s5 = ?c"
    unfolding s5_def by (simp_all add: step s4)
  show ?thesis by (simp add: r1 r2 r3 r4 r5 s5)
qed

section \<open>The claims\<close>

subsection \<open>C1: the rate gates\<close>

text \<open>
  C1, as the specification states it, fails: a gate whose time stamp is unset does not fire
  on its first call. Before any gate is read, \<open>on_packet\<close> stores the clock's reading in every
  unset time stamp, so the first comparison is \<open>0 > period\<close>. With the plot period at 250 ms
  and no time stamp set, the sample at t = 0 records t = 0 as the plot gate's time stamp and
  submits nothing.
\<close>

theorem rate_gate_first_call_counterexample:
  "last_plot_time running_250 = None \<and> plot_period_ms running_250 = Some 250 \<and>
   main_state running_250 = RUNNING \<and> command sample_packet = DAT_RECV \<and>
   is_Return (on_packet (noon_plus_ms 0) sample_packet running_250) \<and>
   last_plot_time (state_of (on_packet (noon_plus_ms 0) sample_packet running_250))
     = Some (noon_plus_ms 0) \<and>
   next_tick_callbacks (state_of (on_packet (noon_plus_ms 0) sample_packet running_250))
     = next_tick_callbacks running_250"
proof -
  have s0: "main_state running_250 = RUNNING" "\<not> logging running_250"
    "plot_period_ms running_250 = Some 250" "log_period_ms running_250 = Some 250"
    "last_plot_time running_250 = None" "last_meas_time running_250 = None"
    by (simp_all add: running_250_def initial_def)
  show ?thesis
    by (simp add: on_packet_is_Return on_packet_fields command_sample_packet s0 no_raise_iff
        returns_sample_packet gate_open_simps period_ok_simps since_def)
qed

text \<open>
  C1, amended. While the application is running and the packet is a measurement, each of the
  three gates of \<open>on_packet\<close> is reached if nothing raised before it, and then compares the
  clock with its own time stamp, or with the clock's reading itself when the time stamp is
  unset. A reached gate fires if and only if its period is one that \<open>timedelta\<close> accepts and
  the difference is strictly greater than it (the log gate only while logging is on and the
  log file can be appended to), and the time stamp of a gate is afterwards the clock's
  reading if it fired, and otherwise the old time stamp, or the clock's reading if there
  was none. The plot gate submits one \<open>update\<close> callback when it fires, the status gate one
  update of the measurement label (if the text of the label can be built: the recording
  time and the uptime are numbers of seconds that \<open>timedelta\<close> accepts), the log gate
  appends one row. The handler returns if and only if both periods are accepted, the log
  gate does not open on a file that cannot be appended to, and the status gate does not
  open on a text that cannot be built; otherwise it raises at the first such place, that
  gate and the gates after it do not fire, and their time stamps record nothing new. A gate with an
  unset time stamp therefore fires on its first call only if its period is negative. With
  a 250 ms period and samples at t = 0, 100, 200, 300, 400 ms, the gate fires exactly once,
  at t = 300.
\<close>

theorem rate_gates_fire:
  "(main_state s = RUNNING \<and> command p = DAT_RECV \<longrightarrow>
      (is_Return (on_packet now p s) \<longleftrightarrow> returns now p s) \<and>
      last_log_time (state_of (on_packet now p s)) =
        Some (if logging s \<and> gate_open now (last_log_time s) (log_period_ms s) \<and>
                 can_append s (csv_file s)
              then now else since now (last_log_time s)) \<and>
      files (state_of (on_packet now p s)) =
        (if logging s \<and> gate_open now (last_log_time s) (log_period_ms s) \<and>
            can_append s (csv_file s)
         then append_row (csv_file s)
                (Row now (voltage (data p)) (sample_current (invert_current s) (data p))
                   (sample_power (invert_current s) (data p)) (ah (data p)) (wh (data p))
                   (recmA (data p)) (recTime (data p)) (recGrp (data p) + 1)
                   (runTime (data p)))
            (files s)
         else files s) \<and>
      last_plot_time (state_of (on_packet now p s)) =
        Some (if log_gate_returns now s \<and> gate_open now (last_plot_time s) (plot_period_ms s)
              then now else since now (last_plot_time s)) \<and>
      last_meas_time (state_of (on_packet now p s)) =
        Some (if plot_gate_returns now s \<and> gate_open now (last_meas_time s) (log_period_ms s) \<and>
                 text_ok (data p)
              then now else since now (last_meas_time s)) \<and>
      next_tick_callbacks (state_of (on_packet now p s)) =
        next_tick_callbacks s
        @ (if log_gate_returns now s \<and> gate_open now (last_plot_time s) (plot_period_ms s)
           then [update_callback now (strftime_HMS_ms now) (voltage (data p))
                   (sample_current (invert_current s) (data p))
                   (sample_power (invert_current s) (data p))]
           else [])
        @ (if plot_gate_returns now s \<and> gate_open now (last_meas_time s) (log_period_ms s) \<and>
              text_ok (data p)
           then [measurement_label_update
                  (Meas_text (voltage (data p)) (sample_current (invert_current s) (data p))
                     (sample_power (invert_current s) (data p)) (strftime_HMS_ms now)
                     (ah (data p)) (wh (data p)) (recmA (data p)) (recTime (data p))
                     (recGrp (data p) + 1) (runTime (data p)) (offHour (data p))
                     (offPer (data p)) (reserved (data p)))]
           else [])) \<and>
   (log_gate_returns now s \<longleftrightarrow>
      \<not> logging s \<or>
      (period_ok (log_period_ms s) \<and>
       (\<not> gate_open now (last_log_time s) (log_period_ms s) \<or> can_append s (csv_file s)))) \<and>
   (plot_gate_returns now s \<longleftrightarrow> log_gate_returns now s \<and> period_ok (plot_period_ms s)) \<and>
   (no_raise now s \<longleftrightarrow> plot_gate_returns now s \<and> period_ok (log_period_ms s)) \<and>
   (returns now p s \<longleftrightarrow>
      no_raise now s \<and>
      (\<not> gate_open now (last_meas_time s) (log_period_ms s) \<or> text_ok (data p))) \<and>
   (text_ok (data p) \<longleftrightarrow> seconds_ok (recTime (data p)) \<and> seconds_ok (runTime (data p))) \<and>
   (seconds_ok k \<longleftrightarrow> - 999999999 \<le> k div 86400 \<and> k div 86400 \<le> 999999999) \<and>
   \<not> period_ok None \<and>
   (period_ok (Some n) \<longleftrightarrow> - 999999999 \<le> n div 86400000 \<and> n div 86400000 \<le> 999999999) \<and>
   \<not> gate_open now prev None \<and>
   (gate_open now None (Some n) \<longleftrightarrow> period_ok (Some n) \<and> n < 0) \<and>
   (gate_open now (Some l) (Some n) \<longleftrightarrow> period_ok (Some n) \<and> 1000 * n < dt_sub now l) \<and>
   is_Return
     (deliver [(noon_plus_ms 0, sample_packet), (noon_plus_ms 100, sample_packet),
               (noon_plus_ms 200, sample_packet), (noon_plus_ms 300, sample_packet),
               (noon_plus_ms 400, sample_packet)] running_250) \<and>
   next_tick_callbacks
     (state_of
        (deliver [(noon_plus_ms 0, sample_packet), (noon_plus_ms 100, sample_packet),
                  (noon_plus_ms 200, sample_packet), (noon_plus_ms 300, sample_packet),
                  (noon_plus_ms 400, sample_packet)] running_250)) =
   [update_callback (noon_plus_ms 300) ''12:00:00.300'' 5 (- 2) (- 10),
    measurement_label_update (Meas_text 5 (- 2) (- 10) ''12:00:00.300'' 0 0 50 7 1 60 0 0 0)]"
proof -
  have "main_state s = RUNNING \<and> command p = DAT_RECV \<longrightarrow>
      (is_Return (on_packet now p s) \<longleftrightarrow> returns now p s) \<and>
      last_log_time (state_of (on_packet now p s)) =
        Some (if logging s \<and> gate_open now (last_log_time s) (log_period_ms s) \<and>
                 can_append s (csv_file s)
              then now else since now (last_log_time s)) \<and>
      files (state_of (on_packet now p s)) =
        (if logging s \<and> gate_open now (last_log_time s) (log_period_ms s) \<and>
            can_append s (csv_file s)
         then append_row (csv_file s)
                (Row now (voltage (data p)) (sample_current (invert_current s) (data p))
                   (sample_power (invert_current s) (data p)) (ah (data p)) (wh (data p))
                   (recmA (data p)) (recTime (data p)) (recGrp (data p) + 1)
                   (runTime (data p)))
            (files s)
         else files s) \<and>
      last_plot_time (state_of (on_packet now p s)) =
        Some (if log_gate_returns now s \<and> gate_open now (last_plot_time s) (plot_period_ms s)
              then now else since now (last_plot_time s)) \<and>
      last_meas_time (state_of (on_packet now p s)) =
        Some (if plot_gate_returns now s \<and> gate_open now (last_meas_time s) (log_period_ms s) \<and>
                 text_ok (data p)
              then now else since now (last_meas_time s)) \<and>
      next_tick_callbacks (state_of (on_packet now p s)) =
        next_tick_callbacks s
        @ (if log_gate_returns now s \<and> gate_open now (last_plot_time s) (plot_period_ms s)
           then [update_callback now (strftime_HMS_ms now) (voltage (data p))
                   (sample_current (invert_current s) (data p))
                   (sample_power (invert_current s) (data p))]
           else [])
        @ (if plot_gate_returns now s \<and> gate_open now (last_meas_time s) (log_period_ms s) \<and>
              text_ok (data p)
           then [measurement_label_update
                  (Meas_text (voltage (data p)) (sample_current (invert_current s) (data p))
                     (sample_power (invert_current s) (data p)) (strftime_HMS_ms now)
                     (ah (data p)) (wh (data p)) (recmA (data p)) (recTime (data p))
                     (recGrp (data p) + 1) (runTime (data p)) (offHour (data p))
                     (offPer (data p)) (reserved (data p)))]
           else [])"
    using on_packet_running [of s p now] by simp
  note a = this
  show ?thesis
    by (intro conjI)
      (rule a,
        simp_all add: five_samples_250 period_ok_simps gate_open_simps log_gate_returns_def
          plot_gate_returns_def no_raise_def returns_def text_ok_def seconds_ok_iff
          del: deliver.simps)
qed

text \<open>
  The theorem at the sample of t = 300 ms, when the plot gate last fired at t = 0 and its
  period is 250 ms: the handler returns, the gate fires and its time stamp becomes t = 300.
\<close>

theorem rate_gates_fire_witness:
  "main_state (running_250\<lparr>last_plot_time := Some (noon_plus_ms 0)\<rparr>) = RUNNING \<and>
   command sample_packet = DAT_RECV \<and>
   returns (noon_plus_ms 300) sample_packet
     (running_250\<lparr>last_plot_time := Some (noon_plus_ms 0)\<rparr>) \<and>
   gate_open (noon_plus_ms 300) (Some (noon_plus_ms 0)) (Some 250) \<and>
   is_Return
     (on_packet (noon_plus_ms 300) sample_packet
        (running_250\<lparr>last_plot_time := Some (noon_plus_ms 0)\<rparr>)) \<and>
   last_plot_time
     (state_of
        (on_packet (noon_plus_ms 300) sample_packet
           (running_250\<lparr>last_plot_time := Some (noon_plus_ms 0)\<rparr>))) = Some (noon_plus_ms 300)"
proof -
  let ?s = "running_250\<lparr>last_plot_time := Some (noon_plus_ms 0)\<rparr>"
  have s: "main_state ?s = RUNNING" "\<not> logging ?s" "plot_period_ms ?s = Some 250"
    "log_period_ms ?s = Some 250" "last_plot_time ?s = Some (noon_plus_ms 0)"
    by (simp_all add: running_250_def initial_def)
  have g: "gate_open (noon_plus_ms 300) (Some (noon_plus_ms 0)) (Some 250)"
    "returns (noon_plus_ms 300) sample_packet ?s" "log_gate_returns (noon_plus_ms 300) ?s"
    by (simp_all add: gate_open_simps period_ok_simps dt_sub_noon_plus_ms no_raise_iff
        returns_sample_packet log_gate_returns_def s)
  show ?thesis
    using rate_gates_fire [where s = ?s and p = sample_packet and now = "noon_plus_ms 300"
        and n = 250 and l = "noon_plus_ms 0" and prev = None and k = 0]
    by (simp add: s g command_sample_packet)
qed

subsection \<open>C7: packets that are not processed\<close>

text \<open>
  C7. If the application is not running, or the packet's command is not \<open>DAT_RECV\<close>, then
  \<open>on_packet\<close> returns the state it was given: no row is appended to any file, no callback
  is submitted, the three time stamps keep their values, and nothing is raised.
\<close>

theorem on_packet_drops:
  "main_state s \<noteq> RUNNING \<or> command p \<noteq> DAT_RECV \<Longrightarrow> on_packet now p s = Return s"
  by (rule on_packet_not_processed)

theorem on_packet_drops_witness:
  "main_state (initial :: int app) \<noteq> RUNNING \<and>
   on_packet (noon_plus_ms 0) sample_packet (initial :: int app) = Return initial \<and>
   command (sample_packet\<lparr>command := OTHER_COMMAND 1\<rparr>) \<noteq> DAT_RECV \<and>
   on_packet (noon_plus_ms 0) (sample_packet\<lparr>command := OTHER_COMMAND 1\<rparr>) running_250
     = Return running_250"
  using on_packet_drops [of "initial :: int app" sample_packet "noon_plus_ms 0"]
    on_packet_drops [of running_250 "sample_packet\<lparr>command := OTHER_COMMAND 1\<rparr>"
      "noon_plus_ms 0"]
  by (simp add: initial_def)

subsection \<open>C2: the rolling window\<close>

lemma keep_last_step:
  "drop (length (drop (length zs - C) zs) + length ys - C) (drop (length zs - C) zs @ ys)
     = drop (length zs + length ys - C) (zs @ ys)"
  by (cases "length zs \<le> C") (auto simp: add.commute)

lemma stream_column_many:
  "length L0 \<le> C \<Longrightarrow>
   fold (\<lambda>x L. stream_column C L [x]) xs L0 = drop (length L0 + length xs - C) (L0 @ xs)"
proof (induction xs arbitrary: L0)
  case Nil
  then show ?case by simp
next
  case (Cons x xs)
  let ?L1 = "drop (length (L0 @ [x]) - C) (L0 @ [x])"
  have "length ?L1 \<le> C" by simp
  then have "fold (\<lambda>x L. stream_column C L [x]) (x # xs) L0
        = drop (length ?L1 + length xs - C) (?L1 @ xs)"
    using Cons.IH [of ?L1] by (simp add: stream_column_def Let_def)
  also have "\<dots> = drop (length (L0 @ [x]) + length xs - C) ((L0 @ [x]) @ xs)"
    by (rule keep_last_step)
  finally show ?case by simp
qed

lemma updates_columns:
  "col_DateTime (updates pts ds) =
     fold (\<lambda>x L. stream_column MAX_X_POINTS L [x]) (map (\<lambda>(dt, st, v, c, p). dt) pts)
       (col_DateTime ds)"
  "col_DateTimeStr (updates pts ds) =
     fold (\<lambda>x L. stream_column MAX_X_POINTS L [x]) (map (\<lambda>(dt, st, v, c, p). st) pts)
       (col_DateTimeStr ds)"
  "col_voltage (updates pts ds) =
     fold (\<lambda>x L. stream_column MAX_X_POINTS L [x]) (map (\<lambda>(dt, st, v, c, p). v) pts)
       (col_voltage ds)"
  "col_current (updates pts ds) =
     fold (\<lambda>x L. stream_column MAX_X_POINTS L [x]) (map (\<lambda>(dt, st, v, c, p). c) pts)
       (col_current ds)"
  "col_power (updates pts ds) =
     fold (\<lambda>x L. stream_column MAX_X_POINTS L [x]) (map (\<lambda>(dt, st, v, c, p). p) pts)
       (col_power ds)"
  by (induction pts ds rule: updates.induct) (simp_all add: update_def stream_def)

text \<open>
  C2. Starting from the empty data source, \<open>update\<close> is called with N points in turn, with
  the capacity \<open>MAX_X_POINTS\<close> = 6000. Afterwards every column holds the values of the points
  \<open>drop (N - 6000) pts\<close>: the last min(N, 6000) points, in the order of their appending; the
  points before them, the oldest, are the ones evicted.
\<close>

theorem rolling_window_keeps_latest:
  "col_DateTime (updates pts empty_data) =
     map (\<lambda>(dt, st, v, c, p). dt) (drop (length pts - MAX_X_POINTS) pts) \<and>
   col_DateTimeStr (updates pts empty_data) =
     map (\<lambda>(dt, st, v, c, p). st) (drop (length pts - MAX_X_POINTS) pts) \<and>
   col_voltage (updates pts empty_data) =
     map (\<lambda>(dt, st, v, c, p). v) (drop (length pts - MAX_X_POINTS) pts) \<and>
   col_current (updates pts empty_data) =
     map (\<lambda>(dt, st, v, c, p). c) (drop (length pts - MAX_X_POINTS) pts) \<and>
   col_power (updates pts empty_data) =
     map (\<lambda>(dt, st, v, c, p). p) (drop (length pts - MAX_X_POINTS) pts) \<and>
   length (drop (length pts - MAX_X_POINTS) pts) = min (length pts) MAX_X_POINTS \<and>
   take (length pts - MAX_X_POINTS) pts @ drop (length pts - MAX_X_POINTS) pts = pts \<and>
   MAX_X_POINTS = 6000"
  by (simp add: updates_columns stream_column_many empty_data_def drop_map MAX_X_POINTS_def)

subsection \<open>C4: an open request while not stopped\<close>

lemma on_open_conn_button_fields:
  "main_state (on_open_conn_button s) = INITIALIZING"
  "data_source (on_open_conn_button s) = empty_data"
  "disabled (on_open_conn_button s) =
     (disabled s)(device_select := True, open_conn_button := True, invert_sign_switch := True)"
  "next_tick_callbacks (on_open_conn_button s) = next_tick_callbacks s"
  "status_label_text (on_open_conn_button s) = status_label_text s"
  "logging (on_open_conn_button s) = logging s"
  by (simp_all add: on_open_conn_button_def Let_def widget_update_def on_clear_plot_button_def)

text \<open>
  C4, as the specification states it, fails: \<open>on_open_conn_button\<close> has no guard. Called
  while the application is running, it sets the connection state to \<open>INITIALIZING\<close>.
\<close>

theorem open_request_while_running_counterexample:
  "main_state running_250 = RUNNING \<and>
   main_state (on_open_conn_button running_250) = INITIALIZING \<and>
   main_state (on_open_conn_button running_250) \<noteq> main_state running_250"
  by (simp add: on_open_conn_button_fields running_250_def initial_def)

text \<open>
  C4, amended. Whatever the connection state is, stopped or not, \<open>on_open_conn_button\<close>
  sets it to \<open>INITIALIZING\<close>. The handler itself rejects nothing; what it does against a
  second request is to disable the open control (with the device selection and the sign
  switch).
\<close>

theorem open_request_always_initializes:
  "main_state (on_open_conn_button s) = INITIALIZING \<and>
   disabled (on_open_conn_button s) open_conn_button \<and>
   disabled (on_open_conn_button s) device_select \<and>
   disabled (on_open_conn_button s) invert_sign_switch"
  by (simp add: on_open_conn_button_fields)

subsection \<open>C10: clearing the plot\<close>

lemma on_start_log_button_fields:
  "logging (on_start_log_button now s) = True"
  "data_source (on_start_log_button now s) = empty_data"
  "csv_file (on_start_log_button now s) =
     strftime_file now @ ''_'' @ replace_spaces (plot_title s) @ ''.csv''"
  "main_state (on_start_log_button now s) = main_state s"
  "files (on_start_log_button now s) = files s"
  "next_tick_callbacks (on_start_log_button now s) = next_tick_callbacks s"
  by (simp_all add: on_start_log_button_def Let_def widget_update_def on_clear_plot_button_def)

text \<open>
  C10. \<open>on_open_conn_button\<close> and \<open>on_start_log_button\<close> both call \<open>on_clear_plot_button\<close>,
  before the one sets the connection state and the other switches logging on: the state each
  returns has an empty data source (all five columns empty). In the state the open request
  returns, acquisition has not begun (the state is \<open>INITIALIZING\<close>, where \<open>on_packet\<close> drops
  every packet), and the data source is still empty when the supervising loop has connected
  and set the state to \<open>RUNNING\<close>.
\<close>

theorem open_and_start_log_clear_plot:
  "on_open_conn_button s =
     (on_clear_plot_button
        (widget_update invert_sign_switch True
           (widget_update open_conn_button True (widget_update device_select True s))))
     \<lparr>main_state := INITIALIZING\<rparr> \<and>
   data_source (on_open_conn_button s) = empty_data \<and>
   main_state (on_open_conn_button s) = INITIALIZING \<and>
   on_packet now p (on_open_conn_button s) = Return (on_open_conn_button s) \<and>
   map_sum id data_source (main_method_body connects (on_open_conn_button s)) = Inr empty_data \<and>
   map_sum id main_state (main_method_body connects (on_open_conn_button s)) = Inr RUNNING \<and>
   on_start_log_button now s =
     (on_clear_plot_button
        ((widget_update clear_plot_button True
           (widget_update stop_log_button False
              (widget_update start_log_button True
                 (widget_update log_period_input True (widget_update title_input True s)))))
         \<lparr>csv_file := strftime_file now @ ''_'' @ replace_spaces (plot_title s) @ ''.csv''\<rparr>))
     \<lparr>logging := True\<rparr> \<and>
   data_source (on_start_log_button now s) = empty_data \<and>
   logging (on_start_log_button now s) \<and>
   data_source (on_clear_plot_button s) = empty_data \<and>
   col_DateTime (empty_data :: 'a ColumnDataSource) = [] \<and>
   col_DateTimeStr (empty_data :: 'a ColumnDataSource) = [] \<and>
   col_voltage (empty_data :: 'a ColumnDataSource) = [] \<and>
   col_current (empty_data :: 'a ColumnDataSource) = [] \<and>
   col_power (empty_data :: 'a ColumnDataSource) = []"
proof -
  have "on_packet now p (on_open_conn_button s) = Return (on_open_conn_button s)"
    by (rule on_packet_not_processed) (simp add: on_open_conn_button_fields)
  moreover have
    "map_sum id data_source (main_method_body connects (on_open_conn_button s)) = Inr empty_data"
    "map_sum id main_state (main_method_body connects (on_open_conn_button s)) = Inr RUNNING"
    by (simp_all add: main_method_body_def on_open_conn_button_fields Let_def
        add_next_tick_callback_def)
  moreover have "on_open_conn_button s =
     (on_clear_plot_button
        (widget_update invert_sign_switch True
           (widget_update open_conn_button True (widget_update device_select True s))))
     \<lparr>main_state := INITIALIZING\<rparr>"
    by (simp add: on_open_conn_button_def Let_def)
  moreover have "on_start_log_button now s =
     (on_clear_plot_button
        ((widget_update clear_plot_button True
           (widget_update stop_log_button False
              (widget_update start_log_button True
                 (widget_update log_period_input True (widget_update title_input True s)))))
         \<lparr>csv_file := strftime_file now @ ''_'' @ replace_spaces (plot_title s) @ ''.csv''\<rparr>))
     \<lparr>logging := True\<rparr>"
    by (simp add: on_start_log_button_def Let_def widget_update_def)
  ultimately show ?thesis
    by (simp add: on_open_conn_button_fields on_start_log_button_fields on_clear_plot_button_def
        empty_data_def)
qed

subsection \<open>C5: the writers of the connection state\<close>


lemma run_callback_main_state: "main_state (run_callback c s) = main_state s"
  by (cases c) (simp_all add: widget_update_def)

lemma fold_run_callback_main_state: "main_state (fold run_callback q s) = main_state s"
  by (induction q arbitrary: s) (simp_all add: run_callback_main_state)



subsection \<open>C9: the sign of the current\<close>

lemma on_invert_sign_switch_fields:
  "invert_current (on_invert_sign_switch b s) = b"
  "main_state (on_invert_sign_switch b s) = main_state s"
  "logging (on_invert_sign_switch b s) = logging s"
  "files (on_invert_sign_switch b s) = files s"
  "csv_file (on_invert_sign_switch b s) = csv_file s"
  "can_append (on_invert_sign_switch b s) = can_append s"
  "next_tick_callbacks (on_invert_sign_switch b s) = next_tick_callbacks s"
  "data_source (on_invert_sign_switch b s) = data_source s"
  "measurement_label_text (on_invert_sign_switch b s) = measurement_label_text s"
  "last_plot_time (on_invert_sign_switch b s) = last_plot_time s"
  "last_log_time (on_invert_sign_switch b s) = last_log_time s"
  "last_meas_time (on_invert_sign_switch b s) = last_meas_time s"
  "plot_period_ms (on_invert_sign_switch b s) = plot_period_ms s"
  "log_period_ms (on_invert_sign_switch b s) = log_period_ms s"
  by (simp_all add: on_invert_sign_switch_def)

lemma on_invert_sign_switch_gates:
  "log_gate_returns now (on_invert_sign_switch b s) = log_gate_returns now s"
  "plot_gate_returns now (on_invert_sign_switch b s) = plot_gate_returns now s"
  by (simp_all add: log_gate_returns_def plot_gate_returns_def on_invert_sign_switch_fields)

text \<open>
  C9. The current of a sample is the negated raw current if \<open>invert_current\<close> is set and the
  raw current otherwise, and its power is the voltage times that current. These are the
  values \<open>on_packet\<close> puts into the plot callback, the measurement text and the log row,
  wherever it emits one: a gate emits if the handler reaches it without raising and the
  gate fires (the status gate only if the text of the label can be built). \<open>on_invert_sign_switch\<close> changes the flag and nothing else: the rows written,
  the callbacks queued, the plotted points and the measurement text keep their values. A
  packet handled after the switch was set to \<open>b\<close> appends, behind the callbacks and rows
  that were there, only values computed with \<open>b\<close>.
\<close>

theorem sign_policy_at_transform_time:
  "sample_current True d = - current d \<and>
   sample_current False d = current d \<and>
   sample_power b d = voltage d * sample_current b d \<and>
   invert_current (on_invert_sign_switch b s) = b \<and>
   files (on_invert_sign_switch b s) = files s \<and>
   next_tick_callbacks (on_invert_sign_switch b s) = next_tick_callbacks s \<and>
   data_source (on_invert_sign_switch b s) = data_source s \<and>
   measurement_label_text (on_invert_sign_switch b s) = measurement_label_text s \<and>
   (main_state s = RUNNING \<and> command p = DAT_RECV \<longrightarrow>
      next_tick_callbacks (state_of (on_packet now p (on_invert_sign_switch b s))) =
        next_tick_callbacks s
        @ (if log_gate_returns now s \<and> gate_open now (last_plot_time s) (plot_period_ms s)
           then [update_callback now (strftime_HMS_ms now) (voltage (data p))
                   (sample_current b (data p)) (sample_power b (data p))]
           else [])
        @ (if plot_gate_returns now s \<and> gate_open now (last_meas_time s) (log_period_ms s) \<and>
              text_ok (data p)
           then [measurement_label_update
                  (Meas_text (voltage (data p)) (sample_current b (data p))
                     (sample_power b (data p)) (strftime_HMS_ms now)
                     (ah (data p)) (wh (data p)) (recmA (data p)) (recTime (data p))
                     (recGrp (data p) + 1) (runTime (data p)) (offHour (data p))
                     (offPer (data p)) (reserved (data p)))]
           else []) \<and>
      files (state_of (on_packet now p (on_invert_sign_switch b s))) =
        (if logging s \<and> gate_open now (last_log_time s) (log_period_ms s) \<and>
            can_append s (csv_file s)
         then append_row (csv_file s)
                (Row now (voltage (data p)) (sample_current b (data p))
                   (sample_power b (data p)) (ah (data p)) (wh (data p))
                   (recmA (data p)) (recTime (data p)) (recGrp (data p) + 1)
                   (runTime (data p)))
            (files s)
         else files s) \<and>
      data_source (state_of (on_packet now p (on_invert_sign_switch b s))) = data_source s \<and>
      measurement_label_text (state_of (on_packet now p (on_invert_sign_switch b s))) =
        measurement_label_text s)"
  by (simp add: sample_current_def sample_power_def on_invert_sign_switch_fields
      on_invert_sign_switch_gates on_packet_fields)

text \<open>
  The theorem at a running application whose plot gate last fired 300 ms ago: with the
  switch set, 2 A is plotted as -2 A and -10 W; with the switch cleared, as 2 A and 10 W.
\<close>

theorem sign_policy_at_transform_time_witness:
  "main_state (running_250\<lparr>last_plot_time := Some (noon_plus_ms 0)\<rparr>) = RUNNING \<and>
   command sample_packet = DAT_RECV \<and>
   next_tick_callbacks
     (state_of
        (on_packet (noon_plus_ms 300) sample_packet
           (on_invert_sign_switch False
              (running_250\<lparr>last_plot_time := Some (noon_plus_ms 0)\<rparr>))))
     = [update_callback (noon_plus_ms 300) ''12:00:00.300'' 5 2 10] \<and>
   next_tick_callbacks
     (state_of
        (on_packet (noon_plus_ms 300) sample_packet
           (on_invert_sign_switch True
              (running_250\<lparr>last_plot_time := Some (noon_plus_ms 0)\<rparr>))))
     = [update_callback (noon_plus_ms 300) ''12:00:00.300'' 5 (- 2) (- 10)]"
proof -
  let ?s = "running_250\<lparr>last_plot_time := Some (noon_plus_ms 0)\<rparr>"
  have s: "main_state ?s = RUNNING" "next_tick_callbacks ?s = []"
    "last_plot_time ?s = Some (noon_plus_ms 0)" "plot_period_ms ?s = Some 250"
    "last_meas_time ?s = None" "log_period_ms ?s = Some 250" "\<not> logging ?s"
    by (simp_all add: running_250_def initial_def)
  have g: "gate_open (noon_plus_ms 300) (Some (noon_plus_ms 0)) (Some 250)"
    "\<not> gate_open (noon_plus_ms 300) None (Some 250)"
    "log_gate_returns (noon_plus_ms 300) ?s" "plot_gate_returns (noon_plus_ms 300) ?s"
    by (simp_all add: gate_open_simps period_ok_simps dt_sub_noon_plus_ms
        log_gate_returns_def plot_gate_returns_def s)
  have v: "strftime_HMS_ms (noon_plus_ms 300) = ''12:00:00.300''"
    "sample_current True (data sample_packet) = - 2"
    "sample_current False (data sample_packet) = 2"
    "sample_power True (data sample_packet) = - 10"
    "sample_power False (data sample_packet) = 10"
    "voltage (data sample_packet) = 5"
    by (simp_all add: strftime_HMS_ms_def noon_plus_ms_def pad3_def pad2_def digit_def
        sample_current_def sample_power_def sample_packet_def)
  show ?thesis
    using sign_policy_at_transform_time [where s = ?s and p = sample_packet
        and now = "noon_plus_ms 300" and b = False and d = "data sample_packet"]
      sign_policy_at_transform_time [where s = ?s and p = sample_packet
        and now = "noon_plus_ms 300" and b = True and d = "data sample_packet"]
    by (simp add: s g v command_sample_packet)
qed

subsection \<open>C8: the rows of the log and the name of its file\<close>
























subsection \<open>C6: the periods of the three gates\<close>

















subsection \<open>C3: a connection that fails\<close>

lemma main_method_stopped: "main_state s = STOPPED \<Longrightarrow> main_method n oc s = Inr s"
  by (induction n) (simp_all add: main_method_body_def)

lemma connect_failed_fields:
  "main_state (connect_failed e s) = STOPPED"
  "next_tick_callbacks (connect_failed e s) =
     next_tick_callbacks s @
       [status_label_update (type_name e @ '': '' @ str e),
        widget_update_disabled device_select False,
        widget_update_disabled open_conn_button False,
        widget_update_disabled invert_sign_switch False]"
  by (simp_all add: connect_failed_def Let_def add_next_tick_callback_def)

lemma main_method_body_connect_fails:
  assumes "main_state s = INITIALIZING" "oc = constructor_raises e \<or> oc = connect_raises e"
  shows "\<exists>s'. main_method_body oc s = Inr s' \<and> main_state s' = STOPPED \<and>
           next_tick_callbacks s' =
             next_tick_callbacks s @
               [status_label_update (type_name e @ '': '' @ str e),
                widget_update_disabled device_select False,
                widget_update_disabled open_conn_button False,
                widget_update_disabled invert_sign_switch False]"
  using assms by (auto simp: main_method_body_def connect_failed_fields)

lemma fold_run_callback_next_tick_callbacks:
  "next_tick_callbacks (fold run_callback q s) = next_tick_callbacks s"
proof (induction q arbitrary: s)
  case Nil
  show ?case by simp
next
  case (Cons c q)
  have "next_tick_callbacks (run_callback c s) = next_tick_callbacks s"
    by (cases c) (simp_all add: widget_update_def)
  then show ?case by (simp add: Cons.IH)
qed

lemma run_after_connect_failed:
  assumes "next_tick_callbacks s' =
             q @ [status_label_update t,
                  widget_update_disabled device_select False,
                  widget_update_disabled open_conn_button False,
                  widget_update_disabled invert_sign_switch False]"
  shows "status_label_text (run_next_tick_callbacks s') = t"
    "\<not> disabled (run_next_tick_callbacks s') device_select"
    "\<not> disabled (run_next_tick_callbacks s') open_conn_button"
    "\<not> disabled (run_next_tick_callbacks s') invert_sign_switch"
    "main_state (run_next_tick_callbacks s') = main_state s'"
    "next_tick_callbacks (run_next_tick_callbacks s') = []"
  by (simp_all add: run_next_tick_callbacks_def assms widget_update_def
      fold_run_callback_main_state fold_run_callback_next_tick_callbacks)

text \<open>
  C3. The application is stopped, the user asks for a connection, and the \<open>try\<close> block of
  the supervising loop raises \<open>e\<close>, in the constructor or in a later call. However many
  passes the loop then makes (at least one), it has returned the connection state to
  \<open>STOPPED\<close> and has submitted four callbacks and no more, behind those that were waiting:
  the status text, and one enabling of each of the device selection, the open button and
  the sign switch. Once the document has run its callbacks, the status label shows
  \<open>type(e).__name__ + ": " + str(e)\<close>, the message the program forms from the error, the
  three controls are enabled, the state is \<open>STOPPED\<close> and no callback is left.
\<close>

theorem open_with_failing_connect:
  assumes "main_state s = STOPPED" and "oc = constructor_raises e \<or> oc = connect_raises e"
  shows "\<exists>s'. main_method (Suc n) oc (on_open_conn_button s) = Inr s' \<and>
           main_state s' = STOPPED \<and>
           next_tick_callbacks s' =
             next_tick_callbacks s @
               [status_label_update (type_name e @ '': '' @ str e),
                widget_update_disabled device_select False,
                widget_update_disabled open_conn_button False,
                widget_update_disabled invert_sign_switch False] \<and>
           status_label_text (run_next_tick_callbacks s') = type_name e @ '': '' @ str e \<and>
           \<not> disabled (run_next_tick_callbacks s') device_select \<and>
           \<not> disabled (run_next_tick_callbacks s') open_conn_button \<and>
           \<not> disabled (run_next_tick_callbacks s') invert_sign_switch \<and>
           main_state (run_next_tick_callbacks s') = STOPPED \<and>
           next_tick_callbacks (run_next_tick_callbacks s') = []"
proof -
  have "main_state (on_open_conn_button s) = INITIALIZING"
    by (simp add: on_open_conn_button_fields)
  from main_method_body_connect_fails [OF this assms(2)]
  obtain s' where s': "main_method_body oc (on_open_conn_button s) = Inr s'"
    "main_state s' = STOPPED"
    "next_tick_callbacks s' =
       next_tick_callbacks s @
         [status_label_update (type_name e @ '': '' @ str e),
          widget_update_disabled device_select False,
          widget_update_disabled open_conn_button False,
          widget_update_disabled invert_sign_switch False]"
    by (auto simp: on_open_conn_button_fields)
  have "main_method (Suc n) oc (on_open_conn_button s) = Inr s'"
    by (simp add: s'(1) main_method_stopped [OF s'(2)])
  then show ?thesis
    using s'(2,3) run_after_connect_failed [OF s'(3)] by simp
qed

text \<open>
  The theorem at the initial state, with \<open>connect\<close> raising an \<open>OSError\<close> and the loop making
  three passes.
\<close>

theorem open_with_failing_connect_witness:
  "main_state (initial :: int app) = STOPPED \<and>
   (\<exists>s'. main_method (Suc 2) (connect_raises (Exn ''OSError'' ''open failed''))
            (on_open_conn_button (initial :: int app)) = Inr s' \<and>
         main_state s' = STOPPED \<and>
         next_tick_callbacks s' =
           [status_label_update ''OSError: open failed'',
            widget_update_disabled device_select False,
            widget_update_disabled open_conn_button False,
            widget_update_disabled invert_sign_switch False] \<and>
         status_label_text (run_next_tick_callbacks s') = ''OSError: open failed'' \<and>
         \<not> disabled (run_next_tick_callbacks s') device_select \<and>
         \<not> disabled (run_next_tick_callbacks s') open_conn_button \<and>
         \<not> disabled (run_next_tick_callbacks s') invert_sign_switch)"
proof -
  have i: "main_state (initial :: int app) = STOPPED"
    "next_tick_callbacks (initial :: int app) = []"
    by (simp_all add: initial_def)
  from open_with_failing_connect [where s = "initial :: int app"
      and oc = "connect_raises (Exn ''OSError'' ''open failed'')"
      and e = "Exn ''OSError'' ''open failed''" and n = 2, OF i(1)]
  show ?thesis using i by auto
qed

end
